theory Spec2Isabelle
  imports
    Complex_Main
    "HOL-Library.Sublist"
    "HOL-Library.AList"
    "HOL-Library.Multiset"
    "HOL-Library.Char_ord"
    "HOL-Library.List_Lexorder"
begin


section \<open>Python string operations used by the sources\<close>

text \<open>
  Strings are \<^typ>\<open>string\<close>, one \<^typ>\<open>char\<close> per character of the Python string
  (the model agrees with the program on ASCII text; a non-ASCII code point would be
  several \<^typ>\<open>char\<close>s here). \<open>s.startswith(p)\<close> is \<^term>\<open>prefix p s\<close> and
  \<open>s.endswith(p)\<close> is \<^term>\<open>suffix p s\<close>.
\<close>

text \<open>\<open>sub in s\<close> on strings: \<open>sub\<close> occurs as a contiguous piece of \<open>s\<close>.\<close>

fun contains :: "string \<Rightarrow> string \<Rightarrow> bool" where
  "contains sub [] = (sub = [])"
| "contains sub (c # cs) = (prefix sub (c # cs) \<or> contains sub cs)"

text \<open>\<open>s.split(c)\<close> for a one-character separator: never empty, keeps empty pieces.\<close>

fun split_char :: "char \<Rightarrow> string \<Rightarrow> string list" where
  "split_char c [] = [[]]"
| "split_char c (x # xs) =
     (if x = c then [] # split_char c xs
      else (case split_char c xs of
              [] \<Rightarrow> [[x]]
            | piece # pieces \<Rightarrow> (x # piece) # pieces))"

text \<open>\<open>s.removesuffix(p)\<close> and \<open>s.removeprefix(p)\<close>.\<close>

definition removesuffix :: "string \<Rightarrow> string \<Rightarrow> string" where
  "removesuffix p s = (if suffix p s then take (length s - length p) s else s)"

definition removeprefix :: "string \<Rightarrow> string \<Rightarrow> string" where
  "removeprefix p s = (if prefix p s then drop (length p) s else s)"

text \<open>\<open>s.split(sep, 1)[0]\<close>: the part of \<open>s\<close> before the first occurrence of a
  non-empty \<open>sep\<close>, all of \<open>s\<close> when there is none.\<close>

fun split1_first :: "string \<Rightarrow> string \<Rightarrow> string" where
  "split1_first sep [] = []"
| "split1_first sep (c # cs) =
     (if prefix sep (c # cs) then [] else c # split1_first sep cs)"

text \<open>\<open>s.split(sep, 1)[-1]\<close>: the part of \<open>s\<close> after the first occurrence of a
  non-empty \<open>sep\<close>, all of \<open>s\<close> when there is none.\<close>

fun split1_last_from :: "string \<Rightarrow> string \<Rightarrow> string option" where
  "split1_last_from sep [] = None"
| "split1_last_from sep (c # cs) =
     (if prefix sep (c # cs) then Some (drop (length sep) (c # cs))
      else split1_last_from sep cs)"

definition split1_last :: "string \<Rightarrow> string \<Rightarrow> string" where
  "split1_last sep s = (case split1_last_from sep s of None \<Rightarrow> s | Some r \<Rightarrow> r)"

text \<open>\<open>s.rsplit(c, 1)[0]\<close> for a one-character separator: the part of \<open>s\<close> before
  the last \<open>c\<close>, all of \<open>s\<close> when there is none.\<close>

definition rsplit1_first :: "char \<Rightarrow> string \<Rightarrow> string" where
  "rsplit1_first c s =
     (if c \<in> set s then rev (tl (dropWhile (\<lambda>x. x \<noteq> c) (rev s))) else s)"

text \<open>\<open>sep.join(xs)\<close>.\<close>

fun join :: "string \<Rightarrow> string list \<Rightarrow> string" where
  "join sep [] = []"
| "join sep [x] = x"
| "join sep (x # y # ys) = x @ sep @ join sep (y # ys)"


section \<open>atr/tabulate.py: the data model\<close>

datatype Vote = YES | NO | ABSTAIN | UNKNOWN

text \<open>The \<open>.value\<close> of each member of the \<open>Vote\<close> enumeration.\<close>

fun Vote_value :: "Vote \<Rightarrow> string" where
  "Vote_value YES = ''Yes''"
| "Vote_value NO = ''No''"
| "Vote_value ABSTAIN = ''-''"
| "Vote_value UNKNOWN = ''?''"

datatype VoteStatus = BINDING | COMMITTER | CONTRIBUTOR | STATUS_UNKNOWN

record VoteEmail =
  asf_uid_or_email :: string
  from_email :: string
  status :: VoteStatus
  asf_eid :: string
  iso_datetime :: string
  vote :: Vote
  quotation :: string
  updated :: bool

text \<open>
  A \<open>dict[str, VoteEmail]\<close> is an association list in insertion order with distinct
  keys: \<open>d[k] = v\<close> is \<^term>\<open>AList.update k v d\<close> (an existing key keeps its place, a new
  one goes to the end, as in Python), and \<open>d.values()\<close> is \<^term>\<open>map snd d\<close>.
\<close>

type_synonym tabulated = "(string \<times> VoteEmail) list"

definition dict_values :: "('k \<times> 'v) list \<Rightarrow> 'v list" where
  "dict_values d = map snd d"


section \<open>atr/tabulate.py: the ballot parser\<close>

definition vote_break :: "string \<Rightarrow> bool" where
  "vote_break line =
     (if line = ''-- '' then True
      else if prefix ''On '' line \<and> take 2 (drop 6 line) = '', '' then True
      else if prefix ''From: '' line then True
      else if prefix ''________'' line then True
      else False)"

definition explanation_indicators :: "string list" where
  "explanation_indicators =
     [''[ ] +1'', ''[ ] -1'', ''binding +1 votes'', ''binding -1 votes'']"

definition vote_continue :: "string \<Rightarrow> bool" where
  "vote_continue line =
     (if list_ex (\<lambda>indicator. contains indicator line) explanation_indicators then True
      else if prefix ''>'' line then True
      else False)"

definition plus_one :: "string \<Rightarrow> bool" where
  "plus_one line = (prefix ''+1'' line \<or> contains '' +1'' line)"

definition minus_one :: "string \<Rightarrow> bool" where
  "minus_one line = (prefix ''-1'' line \<or> contains '' -1'' line)"

definition zero :: "string \<Rightarrow> bool" where
  "zero line =
     (line \<in> {''0'', ''-0'', ''+0''} \<or> prefix ''0 '' line \<or> prefix ''+0 '' line
      \<or> prefix ''-0 '' line)"

text \<open>The loop of \<open>_vote_castings\<close> over the lines of the body; \<open>castings\<close> is the
  list built so far, to which the loop appends.\<close>

fun vote_castings_loop :: "string list \<Rightarrow> (Vote \<times> string) list \<Rightarrow> (Vote \<times> string) list" where
  "vote_castings_loop [] castings = castings"
| "vote_castings_loop (line # rest) castings =
     (if vote_continue line then vote_castings_loop rest castings
      else if vote_break line then castings
      else if (plus_one line \<and> minus_one line) \<or> (plus_one line \<and> zero line)
              \<or> (minus_one line \<and> zero line)
           then vote_castings_loop rest castings
      else if plus_one line then vote_castings_loop rest (castings @ [(YES, line)])
      else if minus_one line then vote_castings_loop rest (castings @ [(NO, line)])
      else if zero line then vote_castings_loop rest (castings @ [(ABSTAIN, line)])
      else vote_castings_loop rest castings)"

definition vote_castings :: "string \<Rightarrow> (Vote \<times> string) list" where
  "vote_castings body = vote_castings_loop (split_char CHR 0x0A body) []"


section \<open>atr/tabulate.py: outcome and summary\<close>

record ReleasePolicy =
  rp_id :: nat
  rp_min_hours :: "int option"
  rp_github_repository_name :: string
  rp_github_compose_workflow_path :: "string list"
  rp_github_vote_workflow_path :: "string list"
  rp_github_finish_workflow_path :: "string list"

record Committee =
  c_name :: string
  c_display_name :: string
  c_is_podling :: bool
  c_committee_members :: "string list"
  c_committers :: "string list"

record Project =
  p_name :: string
  p_display_name :: string
  p_committee :: "Committee option"
  p_release_policy :: "ReleasePolicy option"

datatype ReleasePhase =
  RELEASE_CANDIDATE_DRAFT | RELEASE_CANDIDATE | RELEASE_PREVIEW | RELEASE

record Release =
  r_name :: string
  r_project_name :: string
  r_version :: string
  r_phase :: ReleasePhase
  r_project :: "Project option"
  r_podling_thread_id :: "string option"
  r_latest_revision_number :: "string option"

text \<open>
  The numbers of \<open>vote_outcome\<close>. \<open>duration_hours\<close> is the int \<open>0\<close> when the start
  time is unknown and the float \<open>(now - start_unixtime) / 3600\<close> otherwise, so the
  remaining hours are an int or a float. Binary floating point is not computed here:
  the type \<open>'f\<close> of floats and the four operations the function applies to them are
  parameters, to be read as Python's on doubles.
\<close>

datatype 'f pynum = PyInt int | PyFloat 'f

record 'f float_ops =
  true_div :: "int \<Rightarrow> int \<Rightarrow> 'f"
  int_minus_float :: "int \<Rightarrow> 'f \<Rightarrow> 'f"
  float_positive :: "'f \<Rightarrow> bool"
  str_round2 :: "'f \<Rightarrow> string"

text \<open>
  \<open>true_div a b\<close> is \<open>a / b\<close> on two ints, \<open>int_minus_float m x\<close> is \<open>m - x\<close>,
  \<open>float_positive x\<close> is \<open>x > 0\<close>, and \<open>str_round2 x\<close> is the text an f-string gives
  for \<open>round(x, 2)\<close>.
\<close>

text \<open>\<open>str(n)\<close> of an int: its decimal digits, with a minus sign when negative.\<close>

function show_nat :: "nat \<Rightarrow> string" where
  "show_nat n =
     (if n < 10 then [char_of (48 + n)]
      else show_nat (n div 10) @ [char_of (48 + n mod 10)])"
  by pat_completeness auto
termination
  by (relation "measure id") auto

declare show_nat.simps [simp del]

definition show_int :: "int \<Rightarrow> string" where
  "show_int n = (if n < 0 then ''-'' @ show_nat (nat (- n)) else show_nat (nat n))"

text \<open>\<open>x > 0\<close> and the text of \<open>round(x, 2)\<close> on an int or a float; \<open>round\<close> of an
  int to two decimals is the int itself.\<close>

definition num_positive :: "'f float_ops \<Rightarrow> 'f pynum \<Rightarrow> bool" where
  "num_positive fl x = (case x of PyInt n \<Rightarrow> n > 0 | PyFloat f \<Rightarrow> float_positive fl f)"

definition str_rounded :: "'f float_ops \<Rightarrow> 'f pynum \<Rightarrow> string" where
  "str_rounded fl x = (case x of PyInt n \<Rightarrow> show_int n | PyFloat f \<Rightarrow> str_round2 fl f)"

text \<open>\<open>m - d\<close> for an int \<open>m\<close> and a number \<open>d\<close>.\<close>

definition int_minus :: "'f float_ops \<Rightarrow> int \<Rightarrow> 'f pynum \<Rightarrow> 'f pynum" where
  "int_minus fl m d =
     (case d of PyInt k \<Rightarrow> PyInt (m - k) | PyFloat f \<Rightarrow> PyFloat (int_minus_float fl m f))"

text \<open>\<open>_vote_outcome_format\<close>.\<close>

definition vote_outcome_format ::
  "'f float_ops \<Rightarrow> 'f pynum option \<Rightarrow> int \<Rightarrow> int \<Rightarrow> bool \<times> string" where
  "vote_outcome_format fl duration_hours_remaining binding_plus_one binding_minus_one =
     (let outcome_passed = (binding_plus_one \<ge> 3 \<and> binding_plus_one > binding_minus_one)
      in if \<not> outcome_passed then
           (case duration_hours_remaining of
              None \<Rightarrow> (False, ''The vote would fail if closed now.'')
            | Some remaining \<Rightarrow>
                if num_positive fl remaining
                then (False, ''The vote is still open for '' @ str_rounded fl remaining
                             @ '' hours, but it would fail if closed now.'')
                else (False, ''The vote failed.''))
         else
           (case duration_hours_remaining of
              None \<Rightarrow> (True, ''The vote passed.'')
            | Some remaining \<Rightarrow>
                if num_positive fl remaining
                then (True, ''The vote is still open for '' @ str_rounded fl remaining
                            @ '' hours, but it would pass if closed now.'')
                else (True, ''The vote passed.'')))"

text \<open>The counting loop of \<open>vote_outcome\<close> over \<open>tabulated_votes.values()\<close>; the pair
  is \<open>(binding_plus_one, binding_minus_one)\<close>.\<close>

fun count_binding :: "VoteEmail list \<Rightarrow> int \<times> int \<Rightarrow> int \<times> int" where
  "count_binding [] acc = acc"
| "count_binding (vote_email # rest) (binding_plus_one, binding_minus_one) =
     (if status vote_email \<noteq> BINDING
        then count_binding rest (binding_plus_one, binding_minus_one)
      else if vote vote_email = YES
        then count_binding rest (binding_plus_one + 1, binding_minus_one)
      else if vote vote_email = NO
        then count_binding rest (binding_plus_one, binding_minus_one + 1)
      else count_binding rest (binding_plus_one, binding_minus_one))"

text \<open>\<open>x or None\<close> on an optional integer: zero and \<open>None\<close> both give \<open>None\<close>.\<close>

definition or_None :: "int option \<Rightarrow> int option" where
  "or_None x = (case x of None \<Rightarrow> None | Some n \<Rightarrow> if n = 0 then None else Some n)"

definition min_duration_hours :: "Release \<Rightarrow> int option" where
  "min_duration_hours release =
     (case r_project release of
        None \<Rightarrow> Some 72
      | Some project \<Rightarrow>
          (case p_release_policy project of
             None \<Rightarrow> Some 72
           | Some policy \<Rightarrow> or_None (rp_min_hours policy)))"

definition duration_hours :: "'f float_ops \<Rightarrow> int \<Rightarrow> int option \<Rightarrow> 'f pynum" where
  "duration_hours fl now start_unixtime =
     (case start_unixtime of
        None \<Rightarrow> PyInt 0
      | Some s \<Rightarrow> PyFloat (true_div fl (now - s) 3600))"

definition duration_hours_remaining ::
  "'f float_ops \<Rightarrow> int \<Rightarrow> Release \<Rightarrow> int option \<Rightarrow> 'f pynum option" where
  "duration_hours_remaining fl now release start_unixtime =
     (case min_duration_hours release of
        None \<Rightarrow> None
      | Some m \<Rightarrow> Some (int_minus fl m (duration_hours fl now start_unixtime)))"

text \<open>\<open>vote_outcome\<close>; \<open>now\<close> is the value of \<open>int(time.time())\<close>.\<close>

definition vote_outcome ::
  "'f float_ops \<Rightarrow> int \<Rightarrow> Release \<Rightarrow> int option \<Rightarrow> tabulated \<Rightarrow> bool \<times> string" where
  "vote_outcome fl now release start_unixtime tabulated_votes =
     (let (binding_plus_one, binding_minus_one) =
            count_binding (dict_values tabulated_votes) (0, 0)
      in vote_outcome_format fl (duration_hours_remaining fl now release start_unixtime)
           binding_plus_one binding_minus_one)"

text \<open>
  \<open>vote_summary\<close>: the result dictionary is a map from its keys to integers;
  \<open>result[k] += n\<close> is \<open>incr\<close> (every key it is used on is in the initial dictionary).
\<close>

definition incr :: "string \<Rightarrow> int \<Rightarrow> (string \<rightharpoonup> int) \<Rightarrow> (string \<rightharpoonup> int)" where
  "incr k n result = (case result k of None \<Rightarrow> result | Some v \<Rightarrow> result(k \<mapsto> v + n))"

definition summary_init :: "string \<rightharpoonup> int" where
  "summary_init =
     [''binding_votes'' \<mapsto> 0, ''binding_votes_yes'' \<mapsto> 0, ''binding_votes_no'' \<mapsto> 0,
      ''binding_votes_abstain'' \<mapsto> 0,
      ''non_binding_votes'' \<mapsto> 0, ''non_binding_votes_yes'' \<mapsto> 0,
      ''non_binding_votes_no'' \<mapsto> 0, ''non_binding_votes_abstain'' \<mapsto> 0,
      ''unknown_votes'' \<mapsto> 0, ''unknown_votes_yes'' \<mapsto> 0, ''unknown_votes_no'' \<mapsto> 0,
      ''unknown_votes_abstain'' \<mapsto> 0]"

definition b2i :: "bool \<Rightarrow> int" where
  "b2i b = (if b then 1 else 0)"

definition summary_step :: "VoteEmail \<Rightarrow> (string \<rightharpoonup> int) \<Rightarrow> (string \<rightharpoonup> int)" where
  "summary_step vote_email result =
     (if status vote_email = BINDING then
        incr ''binding_votes_abstain'' (b2i (Vote_value (vote vote_email) = ''Abstain''))
          (incr ''binding_votes_no'' (b2i (Vote_value (vote vote_email) = ''No''))
            (incr ''binding_votes_yes'' (b2i (Vote_value (vote vote_email) = ''Yes''))
              (incr ''binding_votes'' 1 result)))
      else if status vote_email \<in> {COMMITTER, CONTRIBUTOR} then
        incr ''non_binding_votes_abstain'' (b2i (Vote_value (vote vote_email) = ''Abstain''))
          (incr ''non_binding_votes_no'' (b2i (Vote_value (vote vote_email) = ''No''))
            (incr ''non_binding_votes_yes'' (b2i (Vote_value (vote vote_email) = ''Yes''))
              (incr ''non_binding_votes'' 1 result)))
      else
        incr ''unknown_votes_abstain'' (b2i (Vote_value (vote vote_email) = ''Abstain''))
          (incr ''unknown_votes_no'' (b2i (Vote_value (vote vote_email) = ''No''))
            (incr ''unknown_votes_yes'' (b2i (Vote_value (vote vote_email) = ''Yes''))
              (incr ''unknown_votes'' 1 result))))"

fun summary_loop :: "VoteEmail list \<Rightarrow> (string \<rightharpoonup> int) \<Rightarrow> (string \<rightharpoonup> int)" where
  "summary_loop [] result = result"
| "summary_loop (vote_email # rest) result = summary_loop rest (summary_step vote_email result)"

definition vote_summary :: "tabulated \<Rightarrow> (string \<rightharpoonup> int)" where
  "vote_summary tabulated_votes = summary_loop (dict_values tabulated_votes) summary_init"


section \<open>atr/tabulate.py: the tabulator\<close>

text \<open>
  A message of the archive is a dictionary read with \<open>msg.get(key, "")\<close>: a missing
  key and an empty string are the same to the program, so the text fields are strings.
  \<open>epoch\<close> is a number in the archive's records: \<open>None\<close> is a missing key, and the
  test \<open>if epoch:\<close> is false for a missing key and for the number zero.
\<close>

record msg =
  from_raw :: string
  list_raw :: string
  epoch :: "int option"
  subject :: string
  body :: string
  mid :: string
  date :: string

text \<open>
  What the tabulator takes from outside \<open>atr/tabulate.py\<close>: \<open>util.email_from_uid\<close>
  (the lower-cased address of a raw \<open>From:\<close> header, \<open>None\<close> when there is none),
  the directory snapshot \<open>util.email_to_uid_map()\<close>, \<open>util.is_dev_environment()\<close>
  and the committee table read by \<open>data.committee(name=...).get()\<close>.
\<close>

record tab_env =
  email_from_uid :: "string \<Rightarrow> string option"
  email_to_uid :: "string \<rightharpoonup> string"
  is_dev_environment :: bool
  committee_by_name :: "string \<Rightarrow> Committee option"

definition vote_identity ::
  "tab_env \<Rightarrow> string \<Rightarrow> bool \<times> string \<times> string option" where
  "vote_identity env from_raw_v =
     (case email_from_uid env from_raw_v of
        None \<Rightarrow> (False, [], None)
      | Some e \<Rightarrow>
          if e = [] then (False, [], None)
          else
            (let from_email_lower = removesuffix ''.invalid'' e
             in if suffix ''@apache.org'' from_email_lower
                  then (True, from_email_lower, Some (hd (split_char CHR ''@'' from_email_lower)))
                else (case email_to_uid env from_email_lower of
                        Some u \<Rightarrow> (True, from_email_lower, Some u)
                      | None \<Rightarrow> (True, from_email_lower, None))))"

definition vote_status :: "tab_env \<Rightarrow> string \<Rightarrow> string \<Rightarrow> Committee option \<Rightarrow> VoteStatus" where
  "vote_status env asf_uid list_raw_v committee =
     (let committee' =
            (if is_dev_environment env
             then committee_by_name env
                    (split1_last ''.'' (split1_first ''.apache.org'' list_raw_v))
             else committee)
      in case committee' of
           None \<Rightarrow> STATUS_UNKNOWN
         | Some c \<Rightarrow>
             if asf_uid \<in> set (c_committee_members c) then BINDING
             else if asf_uid \<in> set (c_committers c) then COMMITTER
             else CONTRIBUTOR)"

text \<open>Lines 71 to 77 of \<open>votes\<close>: the voter key and the status of a message whose
  identity is \<open>(from_email_lower, asf_uid)\<close>.\<close>

definition voter :: "tab_env \<Rightarrow> Committee option \<Rightarrow> msg \<Rightarrow> string \<Rightarrow> string option
    \<Rightarrow> string \<times> VoteStatus" where
  "voter env committee m from_email_lower asf_uid =
     (case asf_uid of
        Some u \<Rightarrow> (u, vote_status env u (list_raw m) committee)
      | None \<Rightarrow> (from_email_lower, STATUS_UNKNOWN))"

text \<open>Lines 96 to 111 of \<open>votes\<close>: the \<open>VoteEmail\<close> built from a message and its
  non-empty list of castings.\<close>

definition build_vote_email ::
  "msg \<Rightarrow> string \<Rightarrow> string \<Rightarrow> VoteStatus \<Rightarrow> (Vote \<times> string) list \<Rightarrow> bool \<Rightarrow> VoteEmail" where
  "build_vote_email m asf_uid_or_email_v from_email_lower status_v castings updated_v =
     (let vote_cast = (if length castings = 1 then fst (hd castings) else UNKNOWN);
          quotation_v = join '' // '' (map snd castings)
      in \<lparr> asf_uid_or_email = asf_uid_or_email_v,
           from_email = from_email_lower,
           status = status_v,
           asf_eid = mid m,
           iso_datetime = date m,
           vote = vote_cast,
           quotation = quotation_v,
           updated = updated_v \<rparr>)"

text \<open>Lines 79 to 82: \<open>start_unixtime\<close> after a message with a valid identity.\<close>

definition record_start :: "int option \<Rightarrow> msg \<Rightarrow> int option" where
  "record_start start_unixtime m =
     (if start_unixtime = None
      then (case epoch m of
              None \<Rightarrow> None
            | Some e \<Rightarrow> if e \<noteq> 0 then Some e else None)
      else start_unixtime)"

text \<open>One iteration of the loop of \<open>votes\<close>: the state is
  \<open>(start_unixtime, tabulated_votes)\<close>; \<open>Break\<close> leaves the loop, \<open>Continue\<close> goes on
  to the next message.\<close>

datatype loop_step = Continue "int option" tabulated | Break "int option" tabulated

definition votes_step ::
  "tab_env \<Rightarrow> Committee option \<Rightarrow> msg \<Rightarrow> int option \<Rightarrow> tabulated \<Rightarrow> loop_step" where
  "votes_step env committee m start_unixtime tabulated_votes =
     (case vote_identity env (from_raw m) of
        (ok, from_email_lower, asf_uid) \<Rightarrow>
          if \<not> ok then Continue start_unixtime tabulated_votes
          else
            (case voter env committee m from_email_lower asf_uid of
               (asf_uid_or_email_v, status_v) \<Rightarrow>
                 (let start_unixtime' = record_start start_unixtime m
                  in if contains ''[RESULT]'' (subject m)
                       then Break start_unixtime' tabulated_votes
                     else if body m = [] then Continue start_unixtime' tabulated_votes
                     else
                       (let castings = vote_castings (body m)
                        in if castings = [] then Continue start_unixtime' tabulated_votes
                           else
                             Continue start_unixtime'
                               (AList.update asf_uid_or_email_v
                                  (build_vote_email m asf_uid_or_email_v from_email_lower
                                     status_v castings
                                     (map_of tabulated_votes asf_uid_or_email_v \<noteq> None))
                                  tabulated_votes)))))"

fun votes_loop ::
  "tab_env \<Rightarrow> Committee option \<Rightarrow> msg list \<Rightarrow> int option \<Rightarrow> tabulated
    \<Rightarrow> int option \<times> tabulated" where
  "votes_loop env committee [] start_unixtime tabulated_votes =
     (start_unixtime, tabulated_votes)"
| "votes_loop env committee (m # rest) start_unixtime tabulated_votes =
     (case votes_step env committee m start_unixtime tabulated_votes of
        Continue s t \<Rightarrow> votes_loop env committee rest s t
      | Break s t \<Rightarrow> (s, t))"

text \<open>\<open>votes\<close>; \<open>thread\<close> is the finite sequence \<open>util.thread_messages(thread_id)\<close>
  yields, in its order.\<close>

definition votes :: "tab_env \<Rightarrow> Committee option \<Rightarrow> msg list \<Rightarrow> int option \<times> tabulated" where
  "votes env committee thread = votes_loop env committee thread None []"


subsection \<open>Notions used to state the properties of the tabulator\<close>

text \<open>The messages at which the loop breaks: a valid identity and a subject
  containing \<open>[RESULT]\<close>.\<close>

definition stops :: "tab_env \<Rightarrow> msg \<Rightarrow> bool" where
  "stops env m = (fst (vote_identity env (from_raw m)) \<and> contains ''[RESULT]'' (subject m))"

definition before_cutoff :: "tab_env \<Rightarrow> msg list \<Rightarrow> msg list" where
  "before_cutoff env thread = takeWhile (\<lambda>m. \<not> stops env m) thread"

text \<open>The voter key of a message, for any message with a valid identity.\<close>

definition msg_key :: "tab_env \<Rightarrow> Committee option \<Rightarrow> msg \<Rightarrow> string" where
  "msg_key env committee m =
     (case vote_identity env (from_raw m) of
        (ok, from_email_lower, asf_uid) \<Rightarrow> fst (voter env committee m from_email_lower asf_uid))"

text \<open>A casting-bearing message: valid identity, non-empty body, at least one casting.\<close>

definition bears_casting :: "tab_env \<Rightarrow> msg \<Rightarrow> bool" where
  "bears_casting env m =
     (fst (vote_identity env (from_raw m)) \<and> body m \<noteq> [] \<and> vote_castings (body m) \<noteq> [])"

text \<open>The normalised sender address and the status of a message with a valid
  identity.\<close>

definition msg_from_email :: "tab_env \<Rightarrow> msg \<Rightarrow> string" where
  "msg_from_email env m = fst (snd (vote_identity env (from_raw m)))"

definition msg_status :: "tab_env \<Rightarrow> Committee option \<Rightarrow> msg \<Rightarrow> VoteStatus" where
  "msg_status env committee m =
     (case vote_identity env (from_raw m) of
        (ok, from_email_lower, asf_uid) \<Rightarrow> snd (voter env committee m from_email_lower asf_uid))"

text \<open>
  The \<open>VoteEmail\<close> built from a casting-bearing message, with a given \<open>updated\<close>,
  field by field: the vote of the single casting, or \<open>UNKNOWN\<close> for several castings;
  the casting lines joined by \<open>" // "\<close>.
\<close>

definition vote_email_of :: "tab_env \<Rightarrow> Committee option \<Rightarrow> msg \<Rightarrow> bool \<Rightarrow> VoteEmail" where
  "vote_email_of env committee m updated_v =
     \<lparr> asf_uid_or_email = msg_key env committee m,
       from_email = msg_from_email env m,
       status = msg_status env committee m,
       asf_eid = mid m,
       iso_datetime = date m,
       vote = (case vote_castings (body m) of [casting] \<Rightarrow> fst casting | _ \<Rightarrow> UNKNOWN),
       quotation = join '' // '' (map snd (vote_castings (body m))),
       updated = updated_v \<rparr>"

text \<open>The messages before the first one whose subject contains \<open>[RESULT]\<close>, whoever
  sent it.\<close>

definition before_result_subject :: "msg list \<Rightarrow> msg list" where
  "before_result_subject thread = takeWhile (\<lambda>m. \<not> contains ''[RESULT]'' (subject m)) thread"

text \<open>The casting-bearing messages of voter \<open>k\<close> before the cutoff, in order.\<close>

definition ballots_of :: "tab_env \<Rightarrow> Committee option \<Rightarrow> string \<Rightarrow> msg list \<Rightarrow> msg list" where
  "ballots_of env committee k thread =
     filter (\<lambda>m. bears_casting env m \<and> msg_key env committee m = k) (before_cutoff env thread)"

text \<open>The epoch the loop records: that of the first message with a valid identity
  and a non-zero epoch.\<close>

definition gives_start :: "tab_env \<Rightarrow> msg \<Rightarrow> bool" where
  "gives_start env m =
     (fst (vote_identity env (from_raw m)) \<and> epoch m \<noteq> None \<and> epoch m \<noteq> Some 0)"

definition first_start :: "tab_env \<Rightarrow> msg list \<Rightarrow> int option" where
  "first_start env thread =
     (case filter (gives_start env) thread of [] \<Rightarrow> None | m # _ \<Rightarrow> epoch m)"

subsection \<open>Notions used to state the properties of the parser and the outcome\<close>

text \<open>How many of the three tests \<open>plus_one\<close>, \<open>minus_one\<close>, \<open>zero\<close> a line
  satisfies.\<close>

definition tests_satisfied :: "string \<Rightarrow> nat" where
  "tests_satisfied line = length (filter id [plus_one line, minus_one line, zero line])"

text \<open>The release policy of a release, when it has a project with a policy.\<close>

definition policy_of :: "Release \<Rightarrow> ReleasePolicy option" where
  "policy_of release =
     (case r_project release of None \<Rightarrow> None | Some project \<Rightarrow> p_release_policy project)"


section \<open>atr/storage/writers/vote.py: the data model\<close>

text \<open>
  The tables of \<open>atr/models/sql.py\<close> are not among the sources; the records below
  carry the fields the vote writer reads and writes, as the data model of the
  specification lists them.
\<close>

datatype TaskStatus = QUEUED | ACTIVE | COMPLETED | FAILED

datatype TaskType = VOTE_INITIATE | MESSAGE_SEND | OTHER_TASK

text \<open>\<open>tasks_vote.Initiate\<close> and \<open>message.Send\<close>, the payloads of the two tasks.\<close>

record Initiate =
  i_release_name :: string
  i_email_to :: string
  i_vote_duration :: int
  i_initiator_id :: string
  i_initiator_fullname :: string
  i_subject :: string
  i_body :: string

record Send =
  s_email_sender :: string
  s_email_recipient :: string
  s_subject :: string
  s_body :: string
  s_in_reply_to :: string

datatype task_args = InitiateArgs Initiate | SendArgs Send | OtherArgs

datatype task_result = VoteInitiate (vi_mid: string) (vi_archive_url: string) | OtherResult

record Task =
  t_status :: TaskStatus
  t_task_type :: TaskType
  t_task_args :: task_args
  t_result :: "task_result option"
  t_asf_uid :: string
  t_project_name :: string
  t_version_name :: string
  t_added :: int

text \<open>A revision created by \<open>revision.create_and_manage\<close>.\<close>

record Revision =
  rev_project_name :: string
  rev_version_name :: string
  rev_asfuid :: string
  rev_description :: string

text \<open>The state of the data session: the rows of the tables the writer touches.\<close>

record db =
  db_releases :: "Release list"
  db_tasks :: "Task list"
  db_revisions :: "Revision list"

datatype error =
    AccessError string
  | RuntimeError string
  | ValueError string
  | InteractionError string
  | ReleasePolicyNotFoundError string
  | AttributeError
  | KeyError
  | ExternalError string

text \<open>\<open>Literal["passed", "failed"]\<close>, with its text and the text of \<open>.upper()\<close>.\<close>

datatype vote_result = passed | failed

fun vote_result_upper :: "vote_result \<Rightarrow> string" where
  "vote_result_upper passed = ''PASSED''"
| "vote_result_upper failed = ''FAILED''"

text \<open>
  What the writer takes from outside the sources: the caller's uid
  (\<open>self.__asf_uid\<close>), the clock that stamps a new task, \<open>util.is_dev_environment()\<close>,
  the constant \<open>util.USER_TESTS_ADDRESS\<close>, \<open>util.permitted_recipients\<close>,
  \<open>util.email_mid_from_thread_id\<close>, \<open>interaction.task_archive_url_cached\<close>,
  \<open>construct.start_vote_default\<close>, and \<open>interaction.promote_release\<close> (it returns an
  error text or \<open>None\<close>, and the session it has changed).
\<close>

record vote_env =
  self_asf_uid :: string
  clock_now :: int
  dev_environment :: bool
  USER_TESTS_ADDRESS :: string
  permitted_recipients :: "string \<Rightarrow> string list"
  email_mid_from_thread_id :: "string \<Rightarrow> string \<times> string"
  task_archive_url_cached :: "string option \<Rightarrow> string option"
  start_vote_default :: "string \<Rightarrow> string"
  promote_release :: "db \<Rightarrow> string \<Rightarrow> string \<Rightarrow> string option \<times> db"

text \<open>\<open>sql.release_name\<close>, given by the specification as
  \<open>project + "-" + version\<close>.\<close>

definition release_name :: "string \<Rightarrow> string \<Rightarrow> string" where
  "release_name project_name version_name = project_name @ ''-'' @ version_name"

text \<open>The property \<open>Release.committee\<close>: the committee of the release's project.\<close>

definition release_committee :: "Release \<Rightarrow> Committee option" where
  "release_committee release =
     (case r_project release of None \<Rightarrow> None | Some project \<Rightarrow> p_committee project)"

text \<open>A changed release reaches the table when the session commits: the row with
  the same name is replaced.\<close>

definition update_release :: "db \<Rightarrow> Release \<Rightarrow> db" where
  "update_release data release =
     data\<lparr>db_releases :=
            map (\<lambda>r. if r_name r = r_name release then release else r) (db_releases data)\<rparr>"


section \<open>atr/db/interaction.py: the vote task of a release\<close>

definition TEST_MID :: "string option" where
  "TEST_MID = None"

definition task_mid_get :: "bool \<Rightarrow> Task \<Rightarrow> string option" where
  "task_mid_get is_dev latest_vote_task =
     (if is_dev then TEST_MID
      else (case t_result latest_vote_task of
              Some (VoteInitiate m u) \<Rightarrow> Some m
            | _ \<Rightarrow> None))"

text \<open>\<open>ORDER BY added DESC LIMIT 1\<close>: a row with the greatest \<open>added\<close>; among equal
  ones (the query leaves the choice open) the first in table order.\<close>

fun newest :: "Task list \<Rightarrow> Task option" where
  "newest [] = None"
| "newest (t # ts) =
     (case newest ts of
        None \<Rightarrow> Some t
      | Some b \<Rightarrow> if t_added b > t_added t then Some b else Some t)"

definition release_latest_vote_task :: "bool \<Rightarrow> db \<Rightarrow> Release \<Rightarrow> Task option" where
  "release_latest_vote_task is_dev data release =
     (let disallowed_statuses = (if is_dev then [] else [QUEUED, ACTIVE])
      in newest
           (filter (\<lambda>t. t_project_name t = r_project_name release
                        \<and> t_version_name t = r_version release
                        \<and> t_task_type t = VOTE_INITIATE
                        \<and> t_status t \<notin> set disallowed_statuses
                        \<and> t_result t \<noteq> None)
              (db_tasks data)))"


section \<open>atr/storage/writers/vote.py: start, send_resolution, resolve\<close>

text \<open>\<open>task_args["vote_duration"]\<close> and \<open>task_args["email_to"]\<close>: present in the
  payload of a vote initiation, a \<open>KeyError\<close> otherwise.\<close>

definition arg_vote_duration :: "Task \<Rightarrow> error + int" where
  "arg_vote_duration task =
     (case t_task_args task of InitiateArgs a \<Rightarrow> Inr (i_vote_duration a) | _ \<Rightarrow> Inl KeyError)"

definition arg_email_to :: "Task \<Rightarrow> error + string" where
  "arg_email_to task =
     (case t_task_args task of InitiateArgs a \<Rightarrow> Inr (i_email_to a) | _ \<Rightarrow> Inl KeyError)"

definition start ::
  "vote_env \<Rightarrow> db \<Rightarrow> string \<Rightarrow> string \<Rightarrow> string \<Rightarrow> string \<Rightarrow> int \<Rightarrow> string \<Rightarrow> string
    \<Rightarrow> string \<Rightarrow> string \<Rightarrow> Release option \<Rightarrow> bool \<Rightarrow> string list option
    \<Rightarrow> error + db \<times> Task" where
  "start env data email_to project_name version_name selected_revision_number
     vote_duration_choice subject_data body_data asf_uid asf_fullname release_opt promote
     permitted_opt =
     (case (case release_opt of
              Some r \<Rightarrow> Some r
            | None \<Rightarrow> find (\<lambda>r. r_project_name r = project_name \<and> r_version r = version_name)
                        (db_releases data)) of
        None \<Rightarrow> Inl (AccessError ''Release not found'')
      | Some release \<Rightarrow>
          (let permitted = (case permitted_opt of
                              None \<Rightarrow> permitted_recipients env asf_uid
                            | Some p \<Rightarrow> p)
           in if email_to \<notin> set permitted
                then Inl (AccessError ''Invalid mailing list choice'')
              else
                (case (if promote
                       then (case promote_release env data (r_name release)
                                    selected_revision_number of
                               (Some err, data') \<Rightarrow>
                                 if err \<noteq> [] then Inl (AccessError err) else Inr data'
                             | (None, data') \<Rightarrow> Inr data')
                       else Inr data) of
                   Inl e \<Rightarrow> Inl e
                 | Inr data1 \<Rightarrow>
                     (let task =
                            \<lparr> t_status = QUEUED,
                              t_task_type = VOTE_INITIATE,
                              t_task_args = InitiateArgs
                                \<lparr> i_release_name = r_name release,
                                  i_email_to = email_to,
                                  i_vote_duration = vote_duration_choice,
                                  i_initiator_id = asf_uid,
                                  i_initiator_fullname = asf_fullname,
                                  i_subject = subject_data,
                                  i_body = body_data \<rparr>,
                              t_result = None,
                              t_asf_uid = asf_uid,
                              t_project_name = project_name,
                              t_version_name = version_name,
                              t_added = clock_now env \<rparr>
                      in Inr (data1\<lparr>db_tasks := db_tasks data1 @ [task]\<rparr>, task)))))"

definition send_task ::
  "vote_env \<Rightarrow> string \<Rightarrow> string \<Rightarrow> string \<Rightarrow> string \<Rightarrow> string \<Rightarrow> string \<Rightarrow> string \<Rightarrow> string
    \<Rightarrow> Task" where
  "send_task env email_sender email_recipient subject_v body_v in_reply_to asf_uid
     project_name version_name =
     \<lparr> t_status = QUEUED,
       t_task_type = MESSAGE_SEND,
       t_task_args = SendArgs
         \<lparr> s_email_sender = email_sender,
           s_email_recipient = email_recipient,
           s_subject = subject_v,
           s_body = body_v,
           s_in_reply_to = in_reply_to \<rparr>,
       t_result = None,
       t_asf_uid = asf_uid,
       t_project_name = project_name,
       t_version_name = version_name,
       t_added = clock_now env \<rparr>"

definition send_resolution ::
  "vote_env \<Rightarrow> db \<Rightarrow> Release \<Rightarrow> vote_result \<Rightarrow> string \<Rightarrow> string \<Rightarrow> string \<Rightarrow> Task
    \<Rightarrow> (string \<times> string) option \<Rightarrow> error + db \<times> string option" where
  "send_resolution env data release resolution body_v asf_uid asf_fullname latest_vote_task
     extra_destination =
     (case task_mid_get (dev_environment env) latest_vote_task of
        None \<Rightarrow> Inr (data, Some ''No vote thread found, unable to send resolution message.'')
      | Some vote_thread_mid \<Rightarrow>
          (case arg_email_to latest_vote_task of
             Inl e \<Rightarrow> Inl e
           | Inr email_recipient \<Rightarrow>
               (case r_project release of
                  None \<Rightarrow> Inl AttributeError
                | Some project \<Rightarrow>
                    (let email_sender = asf_uid @ ''@apache.org'';
                         subject_v = ''[VOTE] [RESULT] Release '' @ p_display_name project
                                     @ '' '' @ r_version release @ '' ''
                                     @ vote_result_upper resolution;
                         signature =
                           (if asf_fullname = asf_uid
                            then ''-- '' @ [CHR 0x0A] @ asf_fullname
                            else ''-- '' @ [CHR 0x0A] @ asf_fullname @ '' ('' @ asf_uid @ '')'');
                         body' = body_v @ [CHR 0x0A, CHR 0x0A] @ signature;
                         in_reply_to = vote_thread_mid;
                         tasks =
                           [send_task env email_sender email_recipient subject_v body'
                              in_reply_to asf_uid (p_name project) (r_version release)]
                           @ (case extra_destination of
                                None \<Rightarrow> []
                              | Some (addr, reply_mid) \<Rightarrow>
                                  [send_task env email_sender addr subject_v body' reply_mid
                                     asf_uid (p_name project) (r_version release)])
                     in Inr (data\<lparr>db_tasks := db_tasks data @ tasks\<rparr>, None)))))"

text \<open>
  Modelled from the spec: \<open>revision.create_and_manage\<close> is not among the sources; the
  specification says the pass branch creates a new revision labelled with the given
  description, which is all it does here.
\<close>

definition create_and_manage :: "db \<Rightarrow> string \<Rightarrow> string \<Rightarrow> string \<Rightarrow> string \<Rightarrow> db" where
  "create_and_manage data project_name version_name asf_uid description =
     data\<lparr>db_revisions := db_revisions data @
            [\<lparr> rev_project_name = project_name, rev_version_name = version_name,
               rev_asfuid = asf_uid, rev_description = description \<rparr>]\<rparr>"

text \<open>The tail of \<open>resolve_release\<close>: commit, \<open>send_resolution\<close>, and the tuple
  returned.\<close>

definition resolve_finish ::
  "vote_env \<Rightarrow> db \<Rightarrow> Release \<Rightarrow> int option \<Rightarrow> vote_result \<Rightarrow> string \<Rightarrow> string \<Rightarrow> Task
    \<Rightarrow> (string \<times> string) option \<Rightarrow> string
    \<Rightarrow> error + db \<times> Release \<times> int option \<times> string \<times> string option" where
  "resolve_finish env data release voting_round vote_result_v resolution_body asf_fullname
     latest_vote_task extra_destination success_message =
     (case send_resolution env data release vote_result_v resolution_body (self_asf_uid env)
             asf_fullname latest_vote_task extra_destination of
        Inl e \<Rightarrow> Inl e
      | Inr (data', error_message) \<Rightarrow>
          Inr (data', release, voting_round, success_message, error_message))"

definition resolve_release ::
  "vote_env \<Rightarrow> db \<Rightarrow> string \<Rightarrow> Release \<Rightarrow> int option \<Rightarrow> vote_result \<Rightarrow> Task \<Rightarrow> string
    \<Rightarrow> string \<Rightarrow> error + db \<times> Release \<times> int option \<times> string \<times> string option" where
  "resolve_release env data project_name release voting_round vote_result_v latest_vote_task
     asf_fullname resolution_body =
     (if voting_round = Some 1 \<and> vote_result_v = passed then
        (let task_mid = task_mid_get (dev_environment env) latest_vote_task
         in case task_archive_url_cached env task_mid of
              None \<Rightarrow> Inl (ValueError ''No archive URL found for podling vote'')
            | Some archive_url \<Rightarrow>
                (let thread_id = last (split_char CHR ''/'' archive_url);
                     release1 = release\<lparr>r_podling_thread_id := Some thread_id\<rparr>;
                     incubator_vote_address = USER_TESTS_ADDRESS env
                 in case r_project release1 of
                      None \<Rightarrow> Inl AttributeError
                    | Some project \<Rightarrow>
                        if p_committee project = None
                          then Inl (ValueError ''Project has no committee'')
                        else
                          (case r_latest_revision_number release1 of
                             None \<Rightarrow> Inl (ValueError ''Release has no revision number'')
                           | Some revision_number \<Rightarrow>
                               (case arg_vote_duration latest_vote_task of
                                  Inl e \<Rightarrow> Inl e
                                | Inr vote_duration \<Rightarrow>
                                    (case start env (update_release data release1)
                                            incubator_vote_address (p_name project)
                                            (r_version release1) revision_number vote_duration
                                            (''[VOTE] Release '' @ p_display_name project
                                               @ '' '' @ r_version release1)
                                            (start_vote_default env (p_name project))
                                            (self_asf_uid env) asf_fullname (Some release1)
                                            False (Some [incubator_vote_address]) of
                                       Inl e \<Rightarrow> Inl e
                                     | Inr (data2, task) \<Rightarrow>
                                         resolve_finish env data2 release1 voting_round
                                           vote_result_v resolution_body asf_fullname
                                           latest_vote_task None
                                           (''Project PPMC vote marked as passed, ''
                                            @ ''and Incubator PMC vote automatically started''))))))
      else if vote_result_v = passed then
        (let release1 = release\<lparr>r_phase := RELEASE_PREVIEW\<rparr>;
             data1 = create_and_manage (update_release data release1) project_name
                       (r_version release1) (self_asf_uid env)
                       ''Create a preview revision from the last candidate draft'';
             extra_destination =
               (case r_podling_thread_id release1 of
                  Some thread \<Rightarrow>
                    if voting_round = Some 2 then Some (email_mid_from_thread_id env thread)
                    else None
                | None \<Rightarrow> None)
         in resolve_finish env data1 release1 voting_round vote_result_v resolution_body
              asf_fullname latest_vote_task extra_destination ''Vote marked as passed'')
      else
        (let release1 = release\<lparr>r_phase := RELEASE_CANDIDATE_DRAFT\<rparr>
         in resolve_finish env (update_release data release1) release1 voting_round
              vote_result_v resolution_body asf_fullname latest_vote_task None
              ''Vote marked as failed''))"

definition resolve ::
  "vote_env \<Rightarrow> db \<Rightarrow> string \<Rightarrow> string \<Rightarrow> vote_result \<Rightarrow> string \<Rightarrow> string
    \<Rightarrow> error + db \<times> Release \<times> int option \<times> string \<times> string option" where
  "resolve env data project_name version_name vote_result_v asf_fullname resolution_body =
     (case find (\<lambda>r. r_name r = release_name project_name version_name
                     \<and> r_phase r = RELEASE_CANDIDATE) (db_releases data) of
        None \<Rightarrow> Inl (AccessError ''Release not found'')
      | Some release \<Rightarrow>
          (case r_project release of
             None \<Rightarrow> Inl AttributeError
           | Some project \<Rightarrow>
               (let is_podling = (case p_committee project of
                                    None \<Rightarrow> False
                                  | Some c \<Rightarrow> c_is_podling c);
                    podling_thread_id = r_podling_thread_id release
                in case release_latest_vote_task (dev_environment env) data release of
                     None \<Rightarrow> Inl (RuntimeError
                               ''No vote task found, unable to send resolution message.'')
                   | Some latest_vote_task \<Rightarrow>
                       (let voting_round =
                              (if is_podling
                               then Some (if podling_thread_id = None then 1 else 2)
                               else None)
                        in if release_committee release = None
                             then Inl (ValueError ''Project has no committee'')
                           else resolve_release env data project_name release voting_round
                                  vote_result_v latest_vote_task asf_fullname
                                  resolution_body))))"

subsection \<open>Notions used to state the properties of the vote writer\<close>

text \<open>The release \<open>resolve\<close> loads: the row of that name in phase candidate.\<close>

definition loaded_candidate :: "db \<Rightarrow> string \<Rightarrow> string \<Rightarrow> Release option" where
  "loaded_candidate data project_name version_name =
     find (\<lambda>r. r_name r = release_name project_name version_name
               \<and> r_phase r = RELEASE_CANDIDATE) (db_releases data)"


text \<open>The task that opens round 2 of a podling vote, as \<open>resolve_release\<close> has
  \<open>start\<close> build it from the release, its project, the duration of the first vote and
  the caller's full name.\<close>

definition round_two_task ::
  "vote_env \<Rightarrow> Release \<Rightarrow> Project \<Rightarrow> int \<Rightarrow> string \<Rightarrow> Task" where
  "round_two_task env release project vote_duration asf_fullname =
     \<lparr> t_status = QUEUED,
       t_task_type = VOTE_INITIATE,
       t_task_args = InitiateArgs
         \<lparr> i_release_name = r_name release,
           i_email_to = USER_TESTS_ADDRESS env,
           i_vote_duration = vote_duration,
           i_initiator_id = self_asf_uid env,
           i_initiator_fullname = asf_fullname,
           i_subject = ''[VOTE] Release '' @ p_display_name project @ '' '' @ r_version release,
           i_body = start_vote_default env (p_name project) \<rparr>,
       t_result = None,
       t_asf_uid = self_asf_uid env,
       t_project_name = p_name project,
       t_version_name = r_version release,
       t_added = clock_now env \<rparr>"

text \<open>The session a call returned, and the recipients of the vote initiations queued
  in a session.\<close>

definition result_db :: "error + db \<times> 'a \<Rightarrow> db option" where
  "result_db r = (case r of Inl e \<Rightarrow> None | Inr (data, x) \<Rightarrow> Some data)"

definition queued_vote_recipients :: "db \<Rightarrow> string list" where
  "queued_vote_recipients data =
     concat (map (\<lambda>t. case t_task_args t of InitiateArgs a \<Rightarrow> [i_email_to a] | _ \<Rightarrow> [])
               (filter (\<lambda>t. t_task_type t = VOTE_INITIATE \<and> t_status t = QUEUED)
                  (db_tasks data)))"


section \<open>atr/db/interaction.py: trusted automation\<close>

datatype TrustedProjectPhase = COMPOSE | VOTE | FINISH

fun phase_value :: "TrustedProjectPhase \<Rightarrow> string" where
  "phase_value COMPOSE = ''compose''"
| "phase_value VOTE = ''vote''"
| "phase_value FINISH = ''finish''"

definition trusted_project_checks :: "string \<Rightarrow> string \<Rightarrow> error + string \<times> string" where
  "trusted_project_checks repository workflow_ref =
     (if \<not> prefix ''apache/'' repository
        then Inl (InteractionError
                    (''Repository must start with '' @ [CHR 0x27] @ ''apache/'' @ [CHR 0x27]))
      else
        (let repository_name = removeprefix ''apache/'' repository
         in if \<not> prefix (repository @ ''/'') workflow_ref
              then Inl (InteractionError
                          (''Workflow ref must start with repository, got '' @ workflow_ref))
            else
              (let workflow_path_at = removeprefix (repository @ ''/'') workflow_ref
               in if \<not> contains ''@'' workflow_path_at
                    then Inl (InteractionError
                                (''Workflow path must contain '' @ [CHR 0x27] @ ''@''
                                 @ [CHR 0x27] @ '', got '' @ workflow_path_at))
                  else
                    (let workflow_path = rsplit1_first CHR ''@'' workflow_path_at
                     in if \<not> prefix ''.github/workflows/'' workflow_path
                          then Inl (InteractionError
                                      (''Workflow path must start with '' @ [CHR 0x27]
                                       @ ''.github/workflows/'' @ [CHR 0x27] @ '', got ''
                                       @ workflow_path))
                        else Inr (repository_name, workflow_path)))))"

text \<open>The tables \<open>_trusted_project\<close> reads.\<close>

record policy_db =
  pd_policies :: "ReleasePolicy list"
  pd_projects :: "Project list"

text \<open>The allowlist of a policy that a phase searches.\<close>

fun phase_allowlist :: "TrustedProjectPhase \<Rightarrow> ReleasePolicy \<Rightarrow> string list" where
  "phase_allowlist COMPOSE policy = rp_github_compose_workflow_path policy"
| "phase_allowlist VOTE policy = rp_github_vote_workflow_path policy"
| "phase_allowlist FINISH policy = rp_github_finish_workflow_path policy"

text \<open>
  Modelled from the spec: the query \<open>db_data.release_policy(github_repository_name=...,
  github_<phase>_workflow_path_has=...)\<close> of \<open>atr/db\<close> is not among the sources; the
  specification says it looks up a policy whose repository name matches and whose
  allowlist for the phase contains the workflow path. \<open>demand\<close> raises its argument when
  there is no such row.
\<close>

definition release_policy_query ::
  "policy_db \<Rightarrow> string \<Rightarrow> TrustedProjectPhase \<Rightarrow> string \<Rightarrow> ReleasePolicy option" where
  "release_policy_query data repository_name phase workflow_path =
     find (\<lambda>policy. rp_github_repository_name policy = repository_name
                    \<and> workflow_path \<in> set (phase_allowlist phase policy))
       (pd_policies data)"

text \<open>
  Modelled from the spec: the query \<open>db_data.project(release_policy_id=...)\<close>, the
  project bound to the policy.
\<close>

definition project_query :: "policy_db \<Rightarrow> nat \<Rightarrow> Project option" where
  "project_query data policy_id =
     find (\<lambda>project. case p_release_policy project of
                       None \<Rightarrow> False
                     | Some policy \<Rightarrow> rp_id policy = policy_id)
       (pd_projects data)"

text \<open>\<open>_trusted_project\<close>; \<open>allowed\<close> is the constant
  \<open>registry.GITHUB_AUTOMATED_RELEASE_COMMITTEES\<close>. (The message of the error for a policy
  without project leaves out the number of the policy.)\<close>

definition trusted_project ::
  "string list \<Rightarrow> policy_db \<Rightarrow> string \<Rightarrow> string \<Rightarrow> TrustedProjectPhase \<Rightarrow> error + Project" where
  "trusted_project allowed data repository workflow_ref phase =
     (case trusted_project_checks repository workflow_ref of
        Inl e \<Rightarrow> Inl e
      | Inr (repository_name, workflow_path) \<Rightarrow>
          (let rpnf_error = ReleasePolicyNotFoundError
                 (''Release policy for repository '' @ repository_name @ '' and ''
                  @ phase_value phase @ '' workflow path '' @ workflow_path @ '' not found'')
           in case release_policy_query data repository_name phase workflow_path of
                None \<Rightarrow> Inl rpnf_error
              | Some policy \<Rightarrow>
                  (case project_query data (rp_id policy) of
                     None \<Rightarrow> Inl (InteractionError ''Project for release policy not found'')
                   | Some project \<Rightarrow>
                       (case p_committee project of
                          None \<Rightarrow> Inl (InteractionError
                                    (''Project '' @ p_name project @ '' has no committee''))
                        | Some c \<Rightarrow>
                            if c_name c \<notin> set allowed
                              then Inl (InteractionError
                                          (''Project '' @ p_name project
                                           @ '' is not in a committee that can make releases''))
                            else Inr project))))"

text \<open>
  What \<open>trusted_jwt\<close> takes from outside the sources: \<open>jwtoken.verify_github_oidc\<close>
  (the claims of a valid token, an error otherwise), \<open>ldap.github_to_apache\<close> and the
  committee allowlist of \<open>atr/registry.py\<close>. The payload is a dictionary of claims.
\<close>

record jwt_env =
  verify_github_oidc :: "string \<Rightarrow> error + (string \<rightharpoonup> string)"
  github_to_apache :: "string \<Rightarrow> error + string"
  GITHUB_AUTOMATED_RELEASE_COMMITTEES :: "string list"

definition trusted_jwt ::
  "jwt_env \<Rightarrow> policy_db \<Rightarrow> string \<Rightarrow> string \<Rightarrow> TrustedProjectPhase
    \<Rightarrow> error + (string \<rightharpoonup> string) \<times> string \<times> Project" where
  "trusted_jwt env data publisher jwt phase =
     (if publisher \<noteq> ''github''
        then Inl (InteractionError (''Publisher '' @ publisher @ '' not supported''))
      else
        (case verify_github_oidc env jwt of
           Inl e \<Rightarrow> Inl e
         | Inr payload \<Rightarrow>
             (case payload ''actor_id'' of
                None \<Rightarrow> Inl KeyError
              | Some actor_id \<Rightarrow>
                  (case github_to_apache env actor_id of
                     Inl e \<Rightarrow> Inl e
                   | Inr asf_uid \<Rightarrow>
                       (case payload ''repository'' of
                          None \<Rightarrow> Inl KeyError
                        | Some repository \<Rightarrow>
                            (case payload ''workflow_ref'' of
                               None \<Rightarrow> Inl KeyError
                             | Some workflow_ref \<Rightarrow>
                                 (case trusted_project
                                         (GITHUB_AUTOMATED_RELEASE_COMMITTEES env) data
                                         repository workflow_ref phase of
                                    Inl e \<Rightarrow> Inl e
                                  | Inr project \<Rightarrow> Inr (payload, asf_uid, project))))))))"

text \<open>The token verifies, carries the three claims, and its actor maps to a uid.\<close>

definition verified ::
  "jwt_env \<Rightarrow> string \<Rightarrow> string \<Rightarrow> string \<Rightarrow> bool" where
  "verified env jwt repository workflow_ref =
     (case verify_github_oidc env jwt of
        Inl e \<Rightarrow> False
      | Inr payload \<Rightarrow>
          payload ''repository'' = Some repository
          \<and> payload ''workflow_ref'' = Some workflow_ref
          \<and> (case payload ''actor_id'' of
                None \<Rightarrow> False
              | Some actor_id \<Rightarrow> \<not> isl (github_to_apache env actor_id)))"

definition is_interaction_error :: "error + 'a \<Rightarrow> bool" where
  "is_interaction_error r = (case r of Inl (InteractionError m) \<Rightarrow> True | _ \<Rightarrow> False)"

definition is_policy_not_found :: "error + 'a \<Rightarrow> bool" where
  "is_policy_not_found r = (case r of Inl (ReleasePolicyNotFoundError m) \<Rightarrow> True | _ \<Rightarrow> False)"


section \<open>atr/db/interaction.py: all_releases\<close>

text \<open>A component of the fallback key: the tuple \<open>(0, number)\<close> is \<open>Num\<close>, the tuple
  \<open>(1, text)\<close> is \<open>Str\<close>. Python compares the first fields, then the second: every
  \<open>Num\<close> is below every \<open>Str\<close>, numbers compare as integers, texts as strings.\<close>

datatype part = Num int | Str string

instantiation part :: linorder
begin

fun less_eq_part :: "part \<Rightarrow> part \<Rightarrow> bool" where
  "less_eq_part (Num a) (Num b) = (a \<le> b)"
| "less_eq_part (Num a) (Str t) = True"
| "less_eq_part (Str s) (Num b) = False"
| "less_eq_part (Str s) (Str t) = (s \<le> t)"

definition less_part :: "part \<Rightarrow> part \<Rightarrow> bool" where
  "less_part x y = (x \<le> y \<and> \<not> y \<le> x)"

instance
proof
  fix x y z :: part
  show "(x < y) = (x \<le> y \<and> \<not> y \<le> x)"
    by (simp add: less_part_def)
  show "x \<le> x"
    by (cases x) simp_all
  show "x \<le> y \<Longrightarrow> y \<le> z \<Longrightarrow> x \<le> z"
    by (cases x; cases y; cases z) auto
  show "x \<le> y \<Longrightarrow> y \<le> x \<Longrightarrow> x = y"
    by (cases x; cases y) auto
  show "x \<le> y \<or> y \<le> x"
    by (cases x; cases y) auto
qed

end











section \<open>Example data\<close>

text \<open>Float operations for the examples, on exact rationals: they agree with the
  doubles on the values the examples use (\<open>3600 / 3600\<close> is \<open>1.0\<close>, \<open>72 - 1.0\<close> is
  \<open>71.0\<close>, which rounds to itself and prints as \<open>71.0\<close>).\<close>

definition ex_str_round2 :: "rat \<Rightarrow> string" where
  "ex_str_round2 x = (if x = 71 then ''71.0'' else ''?'')"

definition ex_float_ops :: "rat float_ops" where
  "ex_float_ops =
     \<lparr> true_div = (\<lambda>a b. of_int a / of_int b),
       int_minus_float = (\<lambda>m x. of_int m - x),
       float_positive = (\<lambda>x. 0 < x),
       str_round2 = ex_str_round2 \<rparr>"

definition ex_committee :: "bool \<Rightarrow> Committee" where
  "ex_committee podling =
     \<lparr> c_name = ''foo'', c_display_name = ''Foo'', c_is_podling = podling,
       c_committee_members = [''m1'', ''m2'', ''m3'', ''m4''],
       c_committers = [''m1'', ''m2'', ''m3'', ''m4'', ''c1''] \<rparr>"

definition ex_policy :: "int option \<Rightarrow> ReleasePolicy" where
  "ex_policy h =
     \<lparr> rp_id = 1, rp_min_hours = h, rp_github_repository_name = ''foo'',
       rp_github_compose_workflow_path = [],
       rp_github_vote_workflow_path = [''.github/workflows/release.yml''],
       rp_github_finish_workflow_path = [] \<rparr>"

definition ex_project :: "bool \<Rightarrow> ReleasePolicy option \<Rightarrow> Project" where
  "ex_project podling pol =
     \<lparr> p_name = ''foo'', p_display_name = ''Apache Foo'',
       p_committee = Some (ex_committee podling), p_release_policy = pol \<rparr>"

definition ex_release :: "bool \<Rightarrow> ReleasePolicy option \<Rightarrow> string option \<Rightarrow> Release" where
  "ex_release podling pol thread =
     \<lparr> r_name = ''foo-1.0'', r_project_name = ''foo'', r_version = ''1.0'',
       r_phase = RELEASE_CANDIDATE, r_project = Some (ex_project podling pol),
       r_podling_thread_id = thread, r_latest_revision_number = Some ''00002'' \<rparr>"

definition ex_vote :: "string \<Rightarrow> VoteStatus \<Rightarrow> Vote \<Rightarrow> string \<times> VoteEmail" where
  "ex_vote k s v =
     (k, \<lparr> asf_uid_or_email = k, from_email = k @ ''@apache.org'', status = s,
           asf_eid = ''mid-'' @ k, iso_datetime = ''2025-01-01'', vote = v,
           quotation = ''q'', updated = False \<rparr>)"

text \<open>A directory and a thread for the tabulator: \<open>email_from_uid\<close> takes the raw
  header to be the bare address; the thread is scenario S1 followed by a result mail and
  a late vote.\<close>

definition ex_email_from_uid :: "string \<Rightarrow> string option" where
  "ex_email_from_uid raw = (if raw = [] then None else Some raw)"

definition ex_env :: tab_env where
  "ex_env = \<lparr> email_from_uid = ex_email_from_uid,
              email_to_uid = [''m4@example.org'' \<mapsto> ''m4''],
              is_dev_environment = False,
              committee_by_name = (\<lambda>n. None) \<rparr>"

definition ex_msg :: "string \<Rightarrow> int \<Rightarrow> string \<Rightarrow> string \<Rightarrow> msg" where
  "ex_msg sender e subj txt =
     \<lparr> from_raw = sender, list_raw = ''dev.foo.apache.org'', epoch = Some e,
       subject = subj, body = txt, mid = ''mid'', date = ''date'' \<rparr>"

definition ex_thread :: "msg list" where
  "ex_thread =
     [ex_msg ''m1@apache.org'' 100 ''[VOTE] Release Foo 1.0'' ''+1'',
      ex_msg ''m2@apache.org'' 200 ''Re: [VOTE] Release Foo 1.0'' ''+1 (binding)'',
      ex_msg ''m3@apache.org'' 300 ''Re: [VOTE] Release Foo 1.0'' ''-1 broken'',
      ex_msg ''m4@example.org.invalid'' 400 ''Re: [VOTE] Release Foo 1.0'' ''+1'',
      ex_msg ''m3@apache.org'' 500 ''Re: [VOTE] Release Foo 1.0'' ''+1 fixed'',
      ex_msg ''m1@apache.org'' 600 ''[VOTE] [RESULT] Release Foo 1.0 PASSED'' ''+1 all'',
      ex_msg ''m2@apache.org'' 700 ''Re: [VOTE] Release Foo 1.0'' ''-1 too late'']"

text \<open>A thread in which voter \<open>m3\<close> votes twice, a result mail from an unresolvable
  sender follows, and \<open>m3\<close> votes again.\<close>

definition ex_thread_c :: "msg list" where
  "ex_thread_c =
     [ex_msg ''m3@apache.org'' 100 ''Re: [VOTE] Release Foo 1.0'' ''+1'',
      ex_msg ''m3@apache.org'' 200 ''Re: [VOTE] Release Foo 1.0'' ''-1 broken'',
      ex_msg [] 300 ''[VOTE] [RESULT] Release Foo 1.0 PASSED'' ''+1 all'',
      ex_msg ''m3@apache.org'' 400 ''Re: [VOTE] Release Foo 1.0'' ''+1 after all'']"

definition ex_thread_a :: "msg list" where
  "ex_thread_a =
     [ex_msg [] 50 ''[VOTE] [RESULT] Release Foo 1.0 PASSED'' ''+1 all'',
      ex_msg ''m1@apache.org'' 100 ''Re: [VOTE] Release Foo 1.0'' ''+1'']"

definition ex_thread_b :: "msg list" where
  "ex_thread_b =
     [ex_msg ''m1@apache.org'' 600 ''[VOTE] [RESULT] Release Foo 1.0 PASSED'' ''+1 all'']"


text \<open>A session for the vote writer: the release \<open>foo-1.0\<close> in phase candidate, with
  a completed vote initiation whose result names the archived thread.\<close>

definition ex_vote_env :: vote_env where
  "ex_vote_env =
     \<lparr> self_asf_uid = ''m1'', clock_now = 1000, dev_environment = False,
       USER_TESTS_ADDRESS = ''user-tests@tooling.apache.org'',
       permitted_recipients = (\<lambda>u. [''dev@foo.apache.org'']),
       email_mid_from_thread_id = (\<lambda>t. (''dev@foo.apache.org'', ''mid-round-one'')),
       task_archive_url_cached =
         (\<lambda>m. if m = Some ''mid-1'' then Some ''https://lists.apache.org/thread/abc123''
               else None),
       start_vote_default = (\<lambda>p. ''Please vote on '' @ p),
       promote_release = (\<lambda>d n r. (Some ''not called'', d)) \<rparr>"

definition ex_vote_task :: Task where
  "ex_vote_task =
     \<lparr> t_status = COMPLETED, t_task_type = VOTE_INITIATE,
       t_task_args = InitiateArgs
         \<lparr> i_release_name = ''foo-1.0'', i_email_to = ''dev@foo.apache.org'',
           i_vote_duration = 72, i_initiator_id = ''m1'', i_initiator_fullname = ''Em One'',
           i_subject = ''[VOTE] Release Apache Foo 1.0'', i_body = ''Please vote'' \<rparr>,
       t_result = Some (VoteInitiate ''mid-1'' ''https://lists.apache.org/thread/abc123''),
       t_asf_uid = ''m1'', t_project_name = ''foo'', t_version_name = ''1.0'',
       t_added = 500 \<rparr>"

definition ex_db :: "bool \<Rightarrow> string option \<Rightarrow> db" where
  "ex_db podling thread =
     \<lparr> db_releases = [ex_release podling None thread],
       db_tasks = [ex_vote_task],
       db_revisions = [] \<rparr>"

text \<open>The same vote task with a result that carries no message id.\<close>

definition ex_vote_task_no_mid :: Task where
  "ex_vote_task_no_mid = ex_vote_task\<lparr>t_result := Some OtherResult\<rparr>"

text \<open>Scenario S6: a token for \<open>apache/foo\<close> and the workflow \<open>release.yml\<close>, a second
  token for a repository outside \<open>apache/\<close>, and a policy that allows the workflow for
  the vote phase only.\<close>

definition ex_jwt_env :: jwt_env where
  "ex_jwt_env =
     \<lparr> verify_github_oidc =
         (\<lambda>jwt. if jwt = ''good''
                 then Inr [''actor_id'' \<mapsto> ''123'', ''repository'' \<mapsto> ''apache/foo'',
                           ''workflow_ref'' \<mapsto>
                             ''apache/foo/.github/workflows/release.yml@refs/heads/main'']
                else if jwt = ''other''
                 then Inr [''actor_id'' \<mapsto> ''123'', ''repository'' \<mapsto> ''elsewhere/foo'',
                           ''workflow_ref'' \<mapsto>
                             ''elsewhere/foo/.github/workflows/release.yml@refs/heads/main'']
                else Inl (ExternalError ''invalid token'')),
       github_to_apache =
         (\<lambda>a. if a = ''123'' then Inr ''m1'' else Inl (ExternalError ''no such user'')),
       GITHUB_AUTOMATED_RELEASE_COMMITTEES = [''foo''] \<rparr>"

definition ex_policy_db :: policy_db where
  "ex_policy_db =
     \<lparr> pd_policies = [ex_policy None],
       pd_projects = [ex_project False (Some (ex_policy None))] \<rparr>"







section \<open>Properties of the outcome evaluator\<close>

lemma count_binding_eq:
  "count_binding vs (a, b) =
     (a + int (length (filter (\<lambda>v. status v = BINDING \<and> vote v = YES) vs)),
      b + int (length (filter (\<lambda>v. status v = BINDING \<and> vote v = NO) vs)))"
  by (induction vs arbitrary: a b) auto

lemma count_binding_filter:
  "count_binding (filter (\<lambda>v. status v = BINDING) vs) acc = count_binding vs acc"
  by (cases acc) (simp add: count_binding_eq conj_commute cong: conj_cong)

lemma dict_values_filter_binding:
  "dict_values (filter (\<lambda>(k, v). status v = BINDING) tabulated_votes)
     = filter (\<lambda>v. status v = BINDING) (dict_values tabulated_votes)"
  by (induction tabulated_votes) (auto simp: dict_values_def)

text \<open>
  Claim C1. For every release, start time and tabulated vote map, \<open>vote_outcome\<close>
  returns \<open>passed = True\<close> exactly when the number of entries with status \<open>BINDING\<close>
  and vote \<open>YES\<close> is at least 3 and exceeds the number of entries with status
  \<open>BINDING\<close> and vote \<open>NO\<close>; dropping every entry whose status is not \<open>BINDING\<close>
  leaves the whole result (flag and message) as it is.
\<close>

theorem vote_outcome_threshold:
  "fst (vote_outcome fl now release start_unixtime tabulated_votes) =
     (3 \<le> length (filter (\<lambda>v. status v = BINDING \<and> vote v = YES) (dict_values tabulated_votes))
      \<and> length (filter (\<lambda>v. status v = BINDING \<and> vote v = NO) (dict_values tabulated_votes))
          < length (filter (\<lambda>v. status v = BINDING \<and> vote v = YES) (dict_values tabulated_votes)))
   \<and> vote_outcome fl now release start_unixtime
        (filter (\<lambda>(k, v). status v = BINDING) tabulated_votes)
      = vote_outcome fl now release start_unixtime tabulated_votes"
  by (auto simp: vote_outcome_def dict_values_filter_binding count_binding_filter
      count_binding_eq vote_outcome_format_def Let_def split: option.splits)

theorem vote_outcome_threshold_witness:
  "fst (vote_outcome ex_float_ops 0 (ex_release False (Some (ex_policy (Some 0))) None) None
          [ex_vote ''m1'' BINDING YES, ex_vote ''m2'' BINDING YES, ex_vote ''m3'' BINDING NO,
           ex_vote ''m4'' BINDING YES, ex_vote ''c1'' COMMITTER NO,
           ex_vote ''x@example.org'' STATUS_UNKNOWN NO])
   \<and> \<not> fst (vote_outcome ex_float_ops 0 (ex_release False (Some (ex_policy (Some 0))) None) None
          [ex_vote ''m1'' BINDING YES, ex_vote ''m2'' BINDING YES,
           ex_vote ''c1'' COMMITTER YES, ex_vote ''c2'' COMMITTER YES])"
  using vote_outcome_threshold[of ex_float_ops 0 "ex_release False (Some (ex_policy (Some 0))) None"
      None "[ex_vote ''m1'' BINDING YES, ex_vote ''m2'' BINDING YES, ex_vote ''m3'' BINDING NO,
           ex_vote ''m4'' BINDING YES, ex_vote ''c1'' COMMITTER NO,
           ex_vote ''x@example.org'' STATUS_UNKNOWN NO]"]
    vote_outcome_threshold[of ex_float_ops 0 "ex_release False (Some (ex_policy (Some 0))) None"
      None "[ex_vote ''m1'' BINDING YES, ex_vote ''m2'' BINDING YES,
           ex_vote ''c1'' COMMITTER YES, ex_vote ''c2'' COMMITTER YES]"]
  by (simp add: ex_vote_def dict_values_def)

lemma min_duration_hours_cases:
  "min_duration_hours release =
     (case policy_of release of
        None \<Rightarrow> Some 72
      | Some policy \<Rightarrow>
          (case rp_min_hours policy of
             None \<Rightarrow> None
           | Some n \<Rightarrow> if n = 0 then None else Some n))"
  by (simp add: min_duration_hours_def policy_of_def or_None_def split: option.splits)

text \<open>
  Claim C5, as stated, fails: with a policy whose \<open>min_hours\<close> is 0 and no votes, the
  remaining duration is unknown and the message is neither \<open>The vote passed.\<close> nor
  \<open>The vote failed.\<close> but \<open>The vote would fail if closed now.\<close>; and a policy
  whose \<open>min_hours\<close> is absent gives no minimum, not 72. No float is computed on
  either input: the start time is unknown.
\<close>

theorem vote_outcome_message_counterexample:
  "snd (vote_outcome ex_float_ops 0 (ex_release False (Some (ex_policy (Some 0))) None) None [])
     = ''The vote would fail if closed now.''
   \<and> min_duration_hours (ex_release False (Some (ex_policy None)) None) = None"
  by (simp add: vote_outcome_def vote_outcome_format_def duration_hours_remaining_def
      min_duration_hours_def or_None_def ex_release_def ex_project_def ex_policy_def
      dict_values_def)

text \<open>
  Claim C5, amended. The minimum duration is 72 hours when the release has no project
  or its project has no policy; with a policy it is the policy's \<open>min_hours\<close>, and
  there is no minimum when that value is absent or 0. With a minimum \<open>m\<close>, the remaining
  duration is the int \<open>m\<close> when the start time is unknown and the float
  \<open>m - (now - start) / 3600\<close> when it is known; when it is positive the message is
  \<open>The vote is still open for X hours, but it would {pass|fail} if closed now.\<close> with
  X the text Python gives for the remaining duration rounded to 2 decimals (the digits
  of \<open>m\<close> for the int), and otherwise \<open>The vote passed.\<close> or \<open>The vote failed.\<close>.
  With no minimum the message is \<open>The vote passed.\<close> or
  \<open>The vote would fail if closed now.\<close>.
\<close>

theorem vote_outcome_message:
  "min_duration_hours release =
     (case policy_of release of
        None \<Rightarrow> Some 72
      | Some policy \<Rightarrow>
          (case rp_min_hours policy of
             None \<Rightarrow> None
           | Some n \<Rightarrow> if n = 0 then None else Some n))
   \<and> snd (vote_outcome fl now release start_unixtime tabulated_votes) =
     (case min_duration_hours release of
        None \<Rightarrow>
          if fst (vote_outcome fl now release start_unixtime tabulated_votes)
          then ''The vote passed.'' else ''The vote would fail if closed now.''
      | Some m \<Rightarrow>
          (case start_unixtime of
             None \<Rightarrow>
               if 0 < m
               then ''The vote is still open for '' @ show_int m @ '' hours, but it would ''
                    @ (if fst (vote_outcome fl now release start_unixtime tabulated_votes)
                       then ''pass'' else ''fail'')
                    @ '' if closed now.''
               else if fst (vote_outcome fl now release start_unixtime tabulated_votes)
                    then ''The vote passed.'' else ''The vote failed.''
           | Some s \<Rightarrow>
               if float_positive fl (int_minus_float fl m (true_div fl (now - s) 3600))
               then ''The vote is still open for ''
                    @ str_round2 fl (int_minus_float fl m (true_div fl (now - s) 3600))
                    @ '' hours, but it would ''
                    @ (if fst (vote_outcome fl now release start_unixtime tabulated_votes)
                       then ''pass'' else ''fail'')
                    @ '' if closed now.''
               else if fst (vote_outcome fl now release start_unixtime tabulated_votes)
                    then ''The vote passed.'' else ''The vote failed.''))"
proof -
  obtain a b where ab: "count_binding (dict_values tabulated_votes) (0, 0) = (a, b)"
    by (cases "count_binding (dict_values tabulated_votes) (0, 0)")
  show ?thesis
    unfolding min_duration_hours_cases[symmetric] vote_outcome_def ab
    by (auto simp: vote_outcome_format_def duration_hours_remaining_def duration_hours_def
        int_minus_def num_positive_def str_rounded_def min_duration_hours_cases
        split: option.splits)
qed

theorem vote_outcome_message_witness:
  "snd (vote_outcome ex_float_ops 3600 (ex_release False None None) (Some 0)
          [ex_vote ''m1'' BINDING YES])
     = ''The vote is still open for 71.0 hours, but it would fail if closed now.''
   \<and> snd (vote_outcome ex_float_ops 3600 (ex_release False None None) None
          [ex_vote ''m1'' BINDING YES])
     = ''The vote is still open for 72 hours, but it would fail if closed now.''
   \<and> snd (vote_outcome ex_float_ops 3600 (ex_release False (Some (ex_policy (Some 0))) None)
          (Some 0)
          [ex_vote ''m1'' BINDING YES, ex_vote ''m2'' BINDING YES, ex_vote ''m3'' BINDING YES])
     = ''The vote passed.''"
proof -
  have m1: "min_duration_hours (ex_release False None None) = Some 72"
    by (simp add: min_duration_hours_def ex_release_def ex_project_def)
  have m2: "min_duration_hours (ex_release False (Some (ex_policy (Some 0))) None) = None"
    by (simp add: min_duration_hours_def ex_release_def ex_project_def ex_policy_def
        or_None_def)
  have p1: "\<not> fst (vote_outcome ex_float_ops 3600 (ex_release False None None) s
                   [ex_vote ''m1'' BINDING YES])" for s
    by (simp add: vote_outcome_def vote_outcome_format_def dict_values_def ex_vote_def
        Let_def split: option.splits)
  have p2: "fst (vote_outcome ex_float_ops 3600
                   (ex_release False (Some (ex_policy (Some 0))) None) (Some 0)
                   [ex_vote ''m1'' BINDING YES, ex_vote ''m2'' BINDING YES,
                    ex_vote ''m3'' BINDING YES])"
    by (simp add: vote_outcome_def vote_outcome_format_def dict_values_def ex_vote_def
        Let_def split: option.splits)
  have e: "true_div ex_float_ops 3600 3600 = 1"
    by (simp add: ex_float_ops_def)
  have f: "int_minus_float ex_float_ops 72 1 = 71"
    by (simp add: ex_float_ops_def)
  have g: "float_positive ex_float_ops 71"
    by (simp add: ex_float_ops_def)
  have h: "str_round2 ex_float_ops 71 = ''71.0''"
    by (simp add: ex_float_ops_def ex_str_round2_def)
  have s: "show_int 72 = ''72''"
    by code_simp
  have w1: "snd (vote_outcome ex_float_ops 3600 (ex_release False None None) (Some 0)
          [ex_vote ''m1'' BINDING YES])
     = ''The vote is still open for 71.0 hours, but it would fail if closed now.''"
    using vote_outcome_message[of "ex_release False None None" ex_float_ops 3600 "Some 0"
        "[ex_vote ''m1'' BINDING YES]", THEN conjunct2]
    unfolding m1 by (simp add: p1 e f g h)
  have w2: "snd (vote_outcome ex_float_ops 3600 (ex_release False None None) None
          [ex_vote ''m1'' BINDING YES])
     = ''The vote is still open for 72 hours, but it would fail if closed now.''"
    using vote_outcome_message[of "ex_release False None None" ex_float_ops 3600 None
        "[ex_vote ''m1'' BINDING YES]", THEN conjunct2]
    unfolding m1 by (simp add: p1 s)
  have w3: "snd (vote_outcome ex_float_ops 3600
          (ex_release False (Some (ex_policy (Some 0))) None) (Some 0)
          [ex_vote ''m1'' BINDING YES, ex_vote ''m2'' BINDING YES, ex_vote ''m3'' BINDING YES])
     = ''The vote passed.''"
    using vote_outcome_message[of "ex_release False (Some (ex_policy (Some 0))) None"
        ex_float_ops 3600 "Some 0"
        "[ex_vote ''m1'' BINDING YES, ex_vote ''m2'' BINDING YES, ex_vote ''m3'' BINDING YES]",
        THEN conjunct2]
    unfolding m2 by (simp add: p2)
  show ?thesis
    by (intro conjI w1 w2 w3)
qed


section \<open>Properties of the vote summary\<close>

lemma incr_other: "k \<noteq> k' \<Longrightarrow> incr k' n m k = m k"
  by (simp add: incr_def split: option.splits)

lemma incr_same: "incr k n m k = map_option (\<lambda>v. v + n) (m k)"
  by (simp add: incr_def split: option.splits)

lemma abstain_never: "b2i (Vote_value v = ''Abstain'') = 0"
  by (cases v) (simp_all add: b2i_def)

lemma summary_step_abstain:
  "k \<in> {''binding_votes_abstain'', ''non_binding_votes_abstain'', ''unknown_votes_abstain''}
   \<Longrightarrow> summary_step v m k = m k"
  by (auto simp: summary_step_def incr_other incr_same abstain_never map_option.identity
      split: option.splits)

lemma summary_loop_abstain:
  "k \<in> {''binding_votes_abstain'', ''non_binding_votes_abstain'', ''unknown_votes_abstain''}
   \<Longrightarrow> summary_loop vs m k = m k"
  by (induction vs arbitrary: m) (simp_all add: summary_step_abstain del: insert_iff)

lemma summary_step_totals:
  "summary_step v m ''binding_votes'' =
     map_option (\<lambda>n. n + b2i (status v = BINDING)) (m ''binding_votes'')"
  "summary_step v m ''non_binding_votes'' =
     map_option (\<lambda>n. n + b2i (status v \<in> {COMMITTER, CONTRIBUTOR})) (m ''non_binding_votes'')"
  "summary_step v m ''unknown_votes'' =
     map_option (\<lambda>n. n + b2i (status v = STATUS_UNKNOWN)) (m ''unknown_votes'')"
  by (cases "status v"; simp add: summary_step_def incr_other incr_same b2i_def
      map_option.identity)+

lemma summary_loop_totals:
  "summary_loop vs m ''binding_votes'' =
     map_option (\<lambda>n. n + int (length (filter (\<lambda>v. status v = BINDING) vs))) (m ''binding_votes'')"
  "summary_loop vs m ''non_binding_votes'' =
     map_option (\<lambda>n. n + int (length (filter (\<lambda>v. status v \<in> {COMMITTER, CONTRIBUTOR}) vs)))
       (m ''non_binding_votes'')"
  "summary_loop vs m ''unknown_votes'' =
     map_option (\<lambda>n. n + int (length (filter (\<lambda>v. status v = STATUS_UNKNOWN) vs)))
       (m ''unknown_votes'')"
  by (induction vs arbitrary: m;
      simp add: summary_step_totals map_option.identity option.map_comp comp_def b2i_def
        del: insert_iff; simp add: add.assoc)+

text \<open>
  Claim C10. For every tabulated vote map, \<open>vote_summary\<close> returns 0 under
  \<open>binding_votes_abstain\<close>, \<open>non_binding_votes_abstain\<close> and \<open>unknown_votes_abstain\<close>
  (the value of \<open>Vote.ABSTAIN\<close> is \<open>-\<close>, never \<open>Abstain\<close>), while the per-status totals
  count every entry of the status, abstentions included.
\<close>

theorem vote_summary_abstain_zero:
  "vote_summary tabulated_votes ''binding_votes_abstain'' = Some 0
   \<and> vote_summary tabulated_votes ''non_binding_votes_abstain'' = Some 0
   \<and> vote_summary tabulated_votes ''unknown_votes_abstain'' = Some 0
   \<and> vote_summary tabulated_votes ''binding_votes''
       = Some (int (length (filter (\<lambda>v. status v = BINDING) (dict_values tabulated_votes))))
   \<and> vote_summary tabulated_votes ''non_binding_votes''
       = Some (int (length (filter (\<lambda>v. status v \<in> {COMMITTER, CONTRIBUTOR})
                             (dict_values tabulated_votes))))
   \<and> vote_summary tabulated_votes ''unknown_votes''
       = Some (int (length (filter (\<lambda>v. status v = STATUS_UNKNOWN)
                             (dict_values tabulated_votes))))"
  by (simp add: vote_summary_def summary_loop_abstain summary_loop_totals summary_init_def)

theorem vote_summary_abstain_zero_witness:
  "vote_summary [ex_vote ''m1'' BINDING ABSTAIN, ex_vote ''c1'' COMMITTER ABSTAIN,
                 ex_vote ''x@example.org'' STATUS_UNKNOWN ABSTAIN] ''binding_votes_abstain''
     = Some 0
   \<and> vote_summary [ex_vote ''m1'' BINDING ABSTAIN, ex_vote ''c1'' COMMITTER ABSTAIN,
                 ex_vote ''x@example.org'' STATUS_UNKNOWN ABSTAIN] ''binding_votes''
     = Some 1"
  using vote_summary_abstain_zero[of "[ex_vote ''m1'' BINDING ABSTAIN,
      ex_vote ''c1'' COMMITTER ABSTAIN, ex_vote ''x@example.org'' STATUS_UNKNOWN ABSTAIN]"]
  by (simp add: ex_vote_def dict_values_def)


section \<open>Properties of the ballot parser\<close>

lemma vote_castings_loop_acc:
  "vote_castings_loop ls acc = acc @ vote_castings_loop ls []"
proof (induction ls arbitrary: acc)
  case Nil
  show ?case by simp
next
  case (Cons l ls)
  have a: "vote_castings_loop ls (acc @ [x]) = acc @ [x] @ vote_castings_loop ls []" for x
    using Cons.IH[of "acc @ [x]"] by simp
  have b: "vote_castings_loop ls [x] = [x] @ vote_castings_loop ls []" for x
    using Cons.IH[of "[x]"] by simp
  have c: "vote_castings_loop ls acc = acc @ vote_castings_loop ls []"
    by (rule Cons.IH)
  show ?case
    unfolding vote_castings_loop.simps append_Nil a b c by simp
qed

lemma vote_castings_loop_append:
  "list_all (\<lambda>l. vote_continue l \<or> \<not> vote_break l) pre \<Longrightarrow>
   vote_castings_loop (pre @ rest) [] = vote_castings_loop pre [] @ vote_castings_loop rest []"
proof (induction pre)
  case Nil
  then show ?case by simp
next
  case (Cons l pre)
  then have ih: "vote_castings_loop (pre @ rest) []
      = vote_castings_loop pre [] @ vote_castings_loop rest []"
    by simp
  from Cons.prems have r: "vote_continue l \<or> \<not> vote_break l" by simp
  have a: "vote_castings_loop (pre @ rest) [x]
      = [x] @ vote_castings_loop pre [] @ vote_castings_loop rest []" for x
    using vote_castings_loop_acc[of "pre @ rest" "[x]"] ih by simp
  have b: "vote_castings_loop pre [x] = [x] @ vote_castings_loop pre []" for x
    by (rule vote_castings_loop_acc)
  show ?case
    using r unfolding append_Cons vote_castings_loop.simps append_Nil a b ih by auto
qed

lemma tests_satisfied_two:
  "(2 \<le> tests_satisfied line) =
     ((plus_one line \<and> minus_one line) \<or> (plus_one line \<and> zero line)
      \<or> (minus_one line \<and> zero line))"
  by (simp add: tests_satisfied_def)

text \<open>
  Claim C6, as stated, fails: in the body \<open>-- \<close>, newline, \<open>+1\<close> the second line is
  neither skipped nor scan-terminating and satisfies \<open>plus_one\<close> alone, yet it produces
  no casting, because the scan ended at the signature separator before it.
\<close>

theorem vote_castings_line_counterexample:
  "split_char CHR 0x0A (''-- '' @ [CHR 0x0A] @ ''+1'') = [''-- '', ''+1'']
   \<and> \<not> vote_continue ''+1'' \<and> \<not> vote_break ''+1''
   \<and> plus_one ''+1'' \<and> tests_satisfied ''+1'' = 1
   \<and> vote_castings (''-- '' @ [CHR 0x0A] @ ''+1'') = []"
  by code_simp

text \<open>
  Claim C6, amended. For every line of an email body that the scan reaches (no line
  before it is a scan-terminating line that is not skipped) and that is neither skipped
  nor scan-terminating: if it satisfies two or more of the \<open>plus_one\<close>, \<open>minus_one\<close>
  and \<open>zero\<close> tests it adds no casting, and if it satisfies exactly one it adds the
  casting \<open>(YES, line)\<close>, \<open>(NO, line)\<close> or \<open>(ABSTAIN, line)\<close> respectively, between the
  castings of the lines before it and those of the lines after it.
\<close>

theorem vote_castings_line:
  assumes "split_char CHR 0x0A txt = pre @ line # post"
    and "list_all (\<lambda>l. vote_continue l \<or> \<not> vote_break l) pre"
    and "\<not> vote_continue line" and "\<not> vote_break line"
  shows "vote_castings txt =
           vote_castings_loop pre [] @
           (if 2 \<le> tests_satisfied line then []
            else if plus_one line then [(YES, line)]
            else if minus_one line then [(NO, line)]
            else if zero line then [(ABSTAIN, line)]
            else []) @
           vote_castings_loop post []"
proof -
  have "vote_castings txt = vote_castings_loop pre [] @ vote_castings_loop (line # post) []"
    using assms(1,2) by (simp add: vote_castings_def vote_castings_loop_append)
  moreover have "vote_castings_loop (line # post) [] =
           (if 2 \<le> tests_satisfied line then []
            else if plus_one line then [(YES, line)]
            else if minus_one line then [(NO, line)]
            else if zero line then [(ABSTAIN, line)]
            else []) @ vote_castings_loop post []"
  proof -
    have b: "vote_castings_loop post [x] = [x] @ vote_castings_loop post []" for x
      by (rule vote_castings_loop_acc)
    show ?thesis
      unfolding vote_castings_loop.simps append_Nil b tests_satisfied_two
      using assms(3,4) by simp
  qed
  ultimately show ?thesis by simp
qed

theorem vote_castings_line_witness:
  "split_char CHR 0x0A (''Hello'' @ [CHR 0x0A] @ ''+1 (binding)'' @ [CHR 0x0A] @ ''> -1 me'')
     = [''Hello''] @ ''+1 (binding)'' # [''> -1 me'']
   \<and> list_all (\<lambda>l. vote_continue l \<or> \<not> vote_break l) [''Hello'']
   \<and> \<not> vote_continue ''+1 (binding)'' \<and> \<not> vote_break ''+1 (binding)''
   \<and> vote_castings (''Hello'' @ [CHR 0x0A] @ ''+1 (binding)'' @ [CHR 0x0A] @ ''> -1 me'')
       = [(YES, ''+1 (binding)'')]"
proof -
  have h1: "split_char CHR 0x0A
              (''Hello'' @ [CHR 0x0A] @ ''+1 (binding)'' @ [CHR 0x0A] @ ''> -1 me'')
            = [''Hello''] @ ''+1 (binding)'' # [''> -1 me'']"
    by code_simp
  have h2: "list_all (\<lambda>l. vote_continue l \<or> \<not> vote_break l) [''Hello'']"
    by code_simp
  have h3: "\<not> vote_continue ''+1 (binding)''"
    by code_simp
  have h4: "\<not> vote_break ''+1 (binding)''"
    by code_simp
  have r: "vote_castings_loop [''Hello''] [] @
           (if 2 \<le> tests_satisfied ''+1 (binding)'' then []
            else if plus_one ''+1 (binding)'' then [(YES, ''+1 (binding)'')]
            else if minus_one ''+1 (binding)'' then [(NO, ''+1 (binding)'')]
            else if zero ''+1 (binding)'' then [(ABSTAIN, ''+1 (binding)'')]
            else []) @
           vote_castings_loop [''> -1 me''] [] = [(YES, ''+1 (binding)'')]"
    by code_simp
  have c: "vote_castings (''Hello'' @ [CHR 0x0A] @ ''+1 (binding)'' @ [CHR 0x0A] @ ''> -1 me'')
       = [(YES, ''+1 (binding)'')]"
    using vote_castings_line[OF h1 h2 h3 h4] unfolding r .
  show ?thesis
    by (intro conjI h1 h2 h3 h4 c)
qed


section \<open>Properties of the tabulator\<close>

lemma votes_step_invalid:
  "\<not> fst (vote_identity env (from_raw m)) \<Longrightarrow>
   votes_step env c m s t = Continue s t"
  by (cases "vote_identity env (from_raw m)") (simp add: votes_step_def)

lemma votes_step_stop:
  "stops env m \<Longrightarrow> votes_step env c m s t = Break (record_start s m) t"
  by (cases "vote_identity env (from_raw m)")
     (auto simp: votes_step_def stops_def Let_def split: prod.splits)

lemma votes_step_nocast:
  "fst (vote_identity env (from_raw m)) \<Longrightarrow> \<not> stops env m \<Longrightarrow> \<not> bears_casting env m \<Longrightarrow>
   votes_step env c m s t = Continue (record_start s m) t"
  by (cases "vote_identity env (from_raw m)")
     (auto simp: votes_step_def stops_def bears_casting_def Let_def split: prod.splits)

lemma build_vote_email_single:
  "castings \<noteq> [] \<Longrightarrow>
   build_vote_email m k e st castings u =
     \<lparr> asf_uid_or_email = k, from_email = e, status = st, asf_eid = mid m,
       iso_datetime = date m,
       vote = (case castings of [casting] \<Rightarrow> fst casting | _ \<Rightarrow> UNKNOWN),
       quotation = join '' // '' (map snd castings), updated = u \<rparr>"
  by (cases castings; cases "tl castings") (auto simp: build_vote_email_def Let_def)

lemma votes_step_cast:
  "\<not> stops env m \<Longrightarrow> bears_casting env m \<Longrightarrow>
   votes_step env c m s t =
     Continue (record_start s m)
       (AList.update (msg_key env c m)
          (vote_email_of env c m (map_of t (msg_key env c m) \<noteq> None)) t)"
  by (cases "vote_identity env (from_raw m)")
     (auto simp: votes_step_def stops_def bears_casting_def msg_key_def vote_email_of_def
        msg_from_email_def msg_status_def build_vote_email_single Let_def split: prod.splits)

lemma votes_step_cases:
  "votes_step env c m s t =
     (if \<not> fst (vote_identity env (from_raw m)) then Continue s t
      else if stops env m then Break (record_start s m) t
      else if bears_casting env m then
        Continue (record_start s m)
          (AList.update (msg_key env c m)
             (vote_email_of env c m (map_of t (msg_key env c m) \<noteq> None)) t)
      else Continue (record_start s m) t)"
  using votes_step_invalid[of env m c s t] votes_step_stop[of env m c s t]
    votes_step_nocast[of env m c s t] votes_step_cast[of env m c s t]
  by (auto simp: bears_casting_def)

lemma key_of_vote_email_of: "asf_uid_or_email (vote_email_of env c m u) = msg_key env c m"
  by (simp add: vote_email_of_def)

lemma ballots_of_Cons:
  "ballots_of env c k (m # rest) =
     (if stops env m then []
      else (if bears_casting env m \<and> msg_key env c m = k then [m] else [])
           @ ballots_of env c k rest)"
  by (simp add: ballots_of_def before_cutoff_def)

lemma votes_loop_entry:
  "map_of (snd (votes_loop env c thread s t)) k =
     (case rev (ballots_of env c k thread) of
        [] \<Rightarrow> map_of t k
      | [m] \<Rightarrow> Some (vote_email_of env c m (map_of t k \<noteq> None))
      | m2 # m1 # _ \<Rightarrow> Some (vote_email_of env c m2 True))"
proof (induction thread arbitrary: s t)
  case Nil
  show ?case by (simp add: ballots_of_def before_cutoff_def)
next
  case (Cons m rest)
  show ?case
  proof (cases "stops env m")
    case True
    then show ?thesis
      by (simp add: votes_step_cases ballots_of_Cons stops_def)
  next
    case ns: False
    show ?thesis
    proof (cases "bears_casting env m")
      case False
      then show ?thesis
        using ns Cons.IH
        by (simp add: votes_step_cases ballots_of_Cons)
    next
      case bc: True
      let ?t' = "AList.update (msg_key env c m)
          (vote_email_of env c m (map_of t (msg_key env c m) \<noteq> None)) t"
      have ok: "fst (vote_identity env (from_raw m))"
        using bc by (simp add: bears_casting_def)
      have step: "votes_loop env c (m # rest) s t = votes_loop env c rest (record_start s m) ?t'"
        using ns bc ok by (simp add: votes_step_cases)
      show ?thesis
      proof (cases "msg_key env c m = k")
        case False
        then have u: "map_of ?t' k = map_of t k"
          by (simp add: update_conv')
        have b: "ballots_of env c k (m # rest) = ballots_of env c k rest"
          using False ns bc by (simp add: ballots_of_Cons)
        show ?thesis
          unfolding step b Cons.IH[of "record_start s m" ?t'] u ..
      next
        case True
        have m': "map_of ?t' k = Some (vote_email_of env c m (map_of t k \<noteq> None))"
          using True by (simp add: update_conv')
        have b: "ballots_of env c k (m # rest) = m # ballots_of env c k rest"
          using True ns bc by (simp add: ballots_of_Cons)
        show ?thesis
        proof (cases "rev (ballots_of env c k rest)")
          case Nil
          then show ?thesis
            unfolding step b Cons.IH[of "record_start s m" ?t'] m' by simp
        next
          case (Cons x xs)
          then show ?thesis
            unfolding step b Cons.IH[of "record_start s m" ?t'] m'
            by (cases xs) simp_all
        qed
      qed
    qed
  qed
qed



lemma keyed_update:
  "\<forall>(k, v) \<in> set t. f v = k \<Longrightarrow> f v' = k' \<Longrightarrow>
   \<forall>(k, v) \<in> set (AList.update k' v' t). f v = k"
  by (induction t) auto

lemma votes_loop_keyed:
  "\<forall>(k, v) \<in> set t. asf_uid_or_email v = k \<Longrightarrow>
   \<forall>(k, v) \<in> set (snd (votes_loop env c thread s t)). asf_uid_or_email v = k"
proof (induction thread arbitrary: s t)
  case Nil
  then show ?case by simp
next
  case (Cons m rest)
  let ?t' = "AList.update (msg_key env c m)
          (vote_email_of env c m (map_of t (msg_key env c m) \<noteq> None)) t"
  have "\<forall>(k, v) \<in> set ?t'. asf_uid_or_email v = k"
    using Cons.prems by (rule keyed_update) (rule key_of_vote_email_of)
  then show ?case
    using Cons.IH[of ?t'] Cons.IH[of t] Cons.prems
    by (simp add: votes_step_cases)
qed

lemma votes_loop_distinct:
  "distinct (map fst t) \<Longrightarrow> distinct (map fst (snd (votes_loop env c thread s t)))"
proof (induction thread arbitrary: s t)
  case Nil
  then show ?case by simp
next
  case (Cons m rest)
  then show ?case
    by (simp add: votes_step_cases distinct_update)
qed

text \<open>
  Claim C3, as stated, fails. Voter \<open>m3\<close> sends \<open>+1\<close> and then \<open>-1\<close>; the next message
  has a subject containing \<open>[RESULT]\<close> but no resolvable sender, so the loop skips it
  and goes on; \<open>m3\<close> then sends \<open>+1\<close> again. Both of \<open>m3\<close>'s first two messages lie
  before the first \<open>[RESULT]\<close> subject, yet the final entry is not the one built from
  the second of them (a \<open>NO\<close>) but the one built from the fourth message.
\<close>

theorem votes_last_write_wins_counterexample:
  "before_result_subject ex_thread_c = [ex_thread_c ! 0, ex_thread_c ! 1]
   \<and> bears_casting ex_env (ex_thread_c ! 0)
   \<and> msg_key ex_env (Some (ex_committee False)) (ex_thread_c ! 0) = ''m3''
   \<and> bears_casting ex_env (ex_thread_c ! 1)
   \<and> msg_key ex_env (Some (ex_committee False)) (ex_thread_c ! 1) = ''m3''
   \<and> vote (vote_email_of ex_env (Some (ex_committee False)) (ex_thread_c ! 1) True) = NO
   \<and> map_of (snd (votes ex_env (Some (ex_committee False)) ex_thread_c)) ''m3''
       = Some \<lparr> asf_uid_or_email = ''m3'', from_email = ''m3@apache.org'',
                 status = BINDING, asf_eid = ''mid'', iso_datetime = ''date'',
                 vote = YES, quotation = ''+1 after all'', updated = True \<rparr>"
  by code_simp

text \<open>
  Claim C3, amended. The tabulated map is keyed by \<open>asf_uid_or_email\<close> (each entry's key
  is that field, and no key occurs twice). The cutoff is the first message with a valid
  sender identity whose subject contains \<open>[RESULT]\<close>. For a voter key \<open>k\<close>, take its
  casting-bearing messages before the cutoff, in order: with none the key is absent; with
  exactly one message the entry is the \<open>VoteEmail\<close> built from it and carries
  \<open>updated = False\<close>; with two or more, \<open>m1\<close> before \<open>m2\<close> the last of them, the entry
  is the \<open>VoteEmail\<close> built from \<open>m2\<close> and carries \<open>updated = True\<close>.
\<close>

theorem votes_last_write_wins:
  "(\<forall>(k', v) \<in> set (snd (votes env committee thread)). asf_uid_or_email v = k')
   \<and> distinct (map fst (snd (votes env committee thread)))
   \<and> (case rev (ballots_of env committee k thread) of
        [] \<Rightarrow> map_of (snd (votes env committee thread)) k = None
      | [m] \<Rightarrow>
          map_of (snd (votes env committee thread)) k
            = Some (vote_email_of env committee m False)
          \<and> map_option updated (map_of (snd (votes env committee thread)) k) = Some False
      | m2 # m1 # _ \<Rightarrow>
          map_of (snd (votes env committee thread)) k
            = Some (vote_email_of env committee m2 True)
          \<and> map_option updated (map_of (snd (votes env committee thread)) k) = Some True)"
proof -
  have u: "updated (vote_email_of env committee m b) = b" for m b
    by (simp add: vote_email_of_def)
  show ?thesis
    unfolding votes_def
    using votes_loop_keyed[of "[]" env committee thread None]
      votes_loop_distinct[of "[]" env committee thread None]
    by (simp add: votes_loop_entry u split: list.splits)
qed

lemma first_start_Cons:
  "first_start env (m # rest) = (if gives_start env m then epoch m else first_start env rest)"
  by (simp add: first_start_def)

lemma record_start_cases:
  "fst (vote_identity env (from_raw m)) \<Longrightarrow>
   record_start s m = (if s \<noteq> None then s else if gives_start env m then epoch m else None)"
  by (auto simp: record_start_def gives_start_def split: option.splits)

lemma votes_loop_no_stop_append:
  "\<not> list_ex (stops env) pre \<Longrightarrow>
   votes_loop env c (pre @ rest) s t =
     votes_loop env c rest (fst (votes_loop env c pre s t)) (snd (votes_loop env c pre s t))"
proof (induction pre arbitrary: s t)
  case Nil
  show ?case by simp
next
  case (Cons m pre)
  then have ns: "\<not> stops env m" and rest: "\<not> list_ex (stops env) pre"
    by simp_all
  show ?case
    using ns Cons.IH[OF rest] by (simp add: votes_step_cases)
qed

lemma votes_loop_no_stop_start:
  "\<not> list_ex (stops env) pre \<Longrightarrow>
   fst (votes_loop env c pre s t) = (if s \<noteq> None then s else first_start env pre)"
proof (induction pre arbitrary: s t)
  case Nil
  show ?case by (simp add: first_start_def)
next
  case (Cons m pre)
  then have ns: "\<not> stops env m" and rest: "\<not> list_ex (stops env) pre"
    by simp_all
  show ?case
  proof (cases "fst (vote_identity env (from_raw m))")
    case False
    then have "\<not> gives_start env m" by (simp add: gives_start_def)
    then show ?thesis
      using False Cons.IH[OF rest] by (simp add: votes_step_cases first_start_Cons)
  next
    case True
    show ?thesis
      using ns True Cons.IH[OF rest] record_start_cases[OF True, of s]
      by (auto simp: votes_step_cases first_start_Cons gives_start_def)
  qed
qed

lemma first_start_snoc:
  "first_start env (pre @ [m]) =
     (if first_start env pre \<noteq> None then first_start env pre
      else if gives_start env m then epoch m else None)"
  by (induction pre) (auto simp: first_start_Cons first_start_def gives_start_def)

text \<open>
  Claim C4, amended. When the tabulator reaches the first message that has a valid
  sender identity and a subject containing \<open>[RESULT]\<close>, it stops: the messages after
  it contribute nothing, and that message contributes nothing to the vote map, which is
  the map of the messages before it. \<open>start_unixtime\<close> is the epoch of the first message
  with a valid identity and a non-zero epoch among the messages up to and including that
  \<open>[RESULT]\<close> message.
\<close>

theorem votes_result_cutoff:
  assumes "\<not> list_ex (stops env) pre" and "stops env m"
  shows "votes env committee (pre @ m # post)
           = (first_start env (pre @ [m]), snd (votes env committee pre))"
proof -
  have ok: "fst (vote_identity env (from_raw m))"
    using assms(2) by (simp add: stops_def)
  have "votes env committee (pre @ m # post)
          = (record_start (fst (votes_loop env committee pre None [])) m,
             snd (votes_loop env committee pre None []))"
    unfolding votes_def votes_loop_no_stop_append[OF assms(1)]
    using assms(2) by (simp add: votes_step_cases ok)
  moreover have "record_start (fst (votes_loop env committee pre None [])) m
                   = first_start env (pre @ [m])"
    unfolding votes_loop_no_stop_start[OF assms(1)] first_start_snoc
      record_start_cases[OF ok]
    by simp
  ultimately show ?thesis
    by (simp add: votes_def)
qed

text \<open>
  Claim C4, as stated, fails twice. A message whose subject contains \<open>[RESULT]\<close> but
  whose sender identity is invalid is skipped before the subject is looked at, so the
  loop goes on and a later message enters the map and gives the start time; and a
  \<open>[RESULT]\<close> message with a valid identity gives \<open>start_unixtime\<close> when no earlier
  message did, since the epoch is recorded before the subject is tested.
\<close>

theorem votes_result_cutoff_counterexample:
  "contains ''[RESULT]'' (subject (hd ex_thread_a))
   \<and> votes ex_env (Some (ex_committee False)) ex_thread_a
       = (Some 100,
          [(''m1'', \<lparr> asf_uid_or_email = ''m1'', from_email = ''m1@apache.org'',
                      status = BINDING, asf_eid = ''mid'', iso_datetime = ''date'',
                      vote = YES, quotation = ''+1'', updated = False \<rparr>)])
   \<and> contains ''[RESULT]'' (subject (hd ex_thread_b))
   \<and> votes ex_env (Some (ex_committee False)) ex_thread_b = (Some 600, [])"
  by code_simp

theorem votes_result_cutoff_witness:
  "\<not> list_ex (stops ex_env) (take 5 ex_thread)
   \<and> stops ex_env (ex_thread ! 5)
   \<and> votes ex_env (Some (ex_committee False)) (take 5 ex_thread @ ex_thread ! 5 # drop 6 ex_thread)
       = (Some 100, snd (votes ex_env (Some (ex_committee False)) (take 5 ex_thread)))"
proof -
  have h1: "\<not> list_ex (stops ex_env) (take 5 ex_thread)"
    by code_simp
  have h2: "stops ex_env (ex_thread ! 5)"
    by code_simp
  have r: "first_start ex_env (take 5 ex_thread @ [ex_thread ! 5]) = Some 100"
    by code_simp
  show ?thesis
    using votes_result_cutoff[OF h1 h2, of "Some (ex_committee False)" "drop 6 ex_thread"] h1 h2
    unfolding r by (intro conjI)
qed

theorem votes_last_write_wins_witness:
  "map_of (snd (votes ex_env (Some (ex_committee False)) ex_thread)) ''m3''
     = Some \<lparr> asf_uid_or_email = ''m3'', from_email = ''m3@apache.org'',
               status = BINDING, asf_eid = ''mid'', iso_datetime = ''date'',
               vote = YES, quotation = ''+1 fixed'', updated = True \<rparr>
   \<and> map_of (snd (votes ex_env (Some (ex_committee False)) ex_thread)) ''m1''
     = Some \<lparr> asf_uid_or_email = ''m1'', from_email = ''m1@apache.org'',
               status = BINDING, asf_eid = ''mid'', iso_datetime = ''date'',
               vote = YES, quotation = ''+1'', updated = False \<rparr>
   \<and> map_of (snd (votes ex_env (Some (ex_committee False)) ex_thread_c)) ''m3''
     = Some \<lparr> asf_uid_or_email = ''m3'', from_email = ''m3@apache.org'',
               status = BINDING, asf_eid = ''mid'', iso_datetime = ''date'',
               vote = YES, quotation = ''+1 after all'', updated = True \<rparr>"
proof -
  have r3: "rev (ballots_of ex_env (Some (ex_committee False)) ''m3'' ex_thread)
              = [ex_thread ! 4, ex_thread ! 2]"
    by code_simp
  have r1: "rev (ballots_of ex_env (Some (ex_committee False)) ''m1'' ex_thread)
              = [ex_thread ! 0]"
    by code_simp
  have rc: "rev (ballots_of ex_env (Some (ex_committee False)) ''m3'' ex_thread_c)
              = [ex_thread_c ! 3, ex_thread_c ! 1, ex_thread_c ! 0]"
    by code_simp
  have e3: "vote_email_of ex_env (Some (ex_committee False)) (ex_thread ! 4) True
     = \<lparr> asf_uid_or_email = ''m3'', from_email = ''m3@apache.org'',
         status = BINDING, asf_eid = ''mid'', iso_datetime = ''date'',
         vote = YES, quotation = ''+1 fixed'', updated = True \<rparr>"
    by code_simp
  have e1: "vote_email_of ex_env (Some (ex_committee False)) (ex_thread ! 0) False
     = \<lparr> asf_uid_or_email = ''m1'', from_email = ''m1@apache.org'',
         status = BINDING, asf_eid = ''mid'', iso_datetime = ''date'',
         vote = YES, quotation = ''+1'', updated = False \<rparr>"
    by code_simp
  have ec: "vote_email_of ex_env (Some (ex_committee False)) (ex_thread_c ! 3) True
     = \<lparr> asf_uid_or_email = ''m3'', from_email = ''m3@apache.org'',
         status = BINDING, asf_eid = ''mid'', iso_datetime = ''date'',
         vote = YES, quotation = ''+1 after all'', updated = True \<rparr>"
    by code_simp
  have w3: "map_of (snd (votes ex_env (Some (ex_committee False)) ex_thread)) ''m3''
     = Some (vote_email_of ex_env (Some (ex_committee False)) (ex_thread ! 4) True)"
    using votes_last_write_wins[of ex_env "Some (ex_committee False)" ex_thread "''m3''"]
    unfolding r3 by simp
  have w1: "map_of (snd (votes ex_env (Some (ex_committee False)) ex_thread)) ''m1''
     = Some (vote_email_of ex_env (Some (ex_committee False)) (ex_thread ! 0) False)"
    using votes_last_write_wins[of ex_env "Some (ex_committee False)" ex_thread "''m1''"]
    unfolding r1 by simp
  have wc: "map_of (snd (votes ex_env (Some (ex_committee False)) ex_thread_c)) ''m3''
     = Some (vote_email_of ex_env (Some (ex_committee False)) (ex_thread_c ! 3) True)"
    using votes_last_write_wins[of ex_env "Some (ex_committee False)" ex_thread_c "''m3''"]
    unfolding rc by simp
  show ?thesis
    unfolding w3 w1 wc e3 e1 ec by (intro conjI refl)
qed


section \<open>Properties of the vote writer\<close>



lemma send_resolution_releases:
  "send_resolution env d r v b u f t x = Inr (d', e) \<Longrightarrow>
   db_releases d' = db_releases d \<and> db_revisions d' = db_revisions d
   \<and> (\<exists>ts. db_tasks d' = db_tasks d @ ts \<and> list_all (\<lambda>t. t_task_type t = MESSAGE_SEND) ts)"
  by (auto simp: send_resolution_def Let_def send_task_def
      split: option.splits sum.splits prod.splits)

lemma resolve_finish_Inr:
  "resolve_finish env d r vr v bdy fn t x msg = Inr (d', r', vr', s, e) \<Longrightarrow>
   r' = r \<and> vr' = vr \<and> s = msg \<and> db_releases d' = db_releases d
   \<and> db_revisions d' = db_revisions d
   \<and> (\<exists>ts. db_tasks d' = db_tasks d @ ts \<and> list_all (\<lambda>t. t_task_type t = MESSAGE_SEND) ts)"
  using send_resolution_releases[of env d r v bdy "self_asf_uid env" fn t x]
  by (auto simp: resolve_finish_def split: sum.splits prod.splits)

lemma start_no_promote:
  "start env d to pn vn rv dur subj bdy uid fn (Some r) False (Some [to]) =
     Inr (d\<lparr>db_tasks := db_tasks d @
              [\<lparr> t_status = QUEUED, t_task_type = VOTE_INITIATE,
                 t_task_args = InitiateArgs
                   \<lparr> i_release_name = r_name r, i_email_to = to, i_vote_duration = dur,
                     i_initiator_id = uid, i_initiator_fullname = fn, i_subject = subj,
                     i_body = bdy \<rparr>,
                 t_result = None, t_asf_uid = uid, t_project_name = pn,
                 t_version_name = vn, t_added = clock_now env \<rparr>]\<rparr>,
          \<lparr> t_status = QUEUED, t_task_type = VOTE_INITIATE,
            t_task_args = InitiateArgs
              \<lparr> i_release_name = r_name r, i_email_to = to, i_vote_duration = dur,
                i_initiator_id = uid, i_initiator_fullname = fn, i_subject = subj,
                i_body = bdy \<rparr>,
            t_result = None, t_asf_uid = uid, t_project_name = pn,
            t_version_name = vn, t_added = clock_now env \<rparr>)"
  by (simp add: start_def Let_def)

lemma resolve_release_round_one:
  assumes "resolve_release env data project_name release (Some 1) passed latest_vote_task
             asf_fullname resolution_body = Inr (data', release', vr, s, e)"
  shows "\<exists>archive_url project vote_duration ts.
           task_archive_url_cached env (task_mid_get (dev_environment env) latest_vote_task)
             = Some archive_url
           \<and> r_project release = Some project
           \<and> arg_vote_duration latest_vote_task = Inr vote_duration
           \<and> release' = release\<lparr>r_podling_thread_id :=
                                  Some (last (split_char CHR ''/'' archive_url))\<rparr>
           \<and> db_releases data' = db_releases (update_release data release')
           \<and> db_revisions data' = db_revisions data
           \<and> db_tasks data' = db_tasks data
                @ [round_two_task env release project vote_duration asf_fullname] @ ts
           \<and> list_all (\<lambda>t. t_task_type t = MESSAGE_SEND) ts"
proof -
  from assms obtain archive_url where
    a: "task_archive_url_cached env (task_mid_get (dev_environment env) latest_vote_task)
          = Some archive_url"
    by (auto simp: resolve_release_def Let_def split: option.splits)
  from assms a obtain project where p: "r_project release = Some project"
    by (auto simp: resolve_release_def Let_def split: option.splits)
  from assms a p obtain rn where rn: "r_latest_revision_number release = Some rn"
    and c: "p_committee project \<noteq> None"
    by (auto simp: resolve_release_def Let_def split: option.splits if_splits)
  from assms a p rn c obtain vote_duration where
    v: "arg_vote_duration latest_vote_task = Inr vote_duration"
    by (auto simp: resolve_release_def Let_def split: sum.splits)
  let ?r1 = "release\<lparr>r_podling_thread_id := Some (last (split_char CHR ''/'' archive_url))\<rparr>"
  let ?task = "round_two_task env release project vote_duration asf_fullname"
  let ?d2 = "(update_release data ?r1)\<lparr>db_tasks := db_tasks (update_release data ?r1) @ [?task]\<rparr>"
  have fin: "resolve_finish env ?d2 ?r1 (Some 1) passed resolution_body asf_fullname
               latest_vote_task None
               (''Project PPMC vote marked as passed, ''
                @ ''and Incubator PMC vote automatically started'')
             = Inr (data', release', vr, s, e)"
    using assms a p rn c v
    by (simp add: resolve_release_def Let_def start_no_promote round_two_task_def)
  from resolve_finish_Inr[OF fin] show ?thesis
    using a p v by (auto simp: update_release_def)
qed



text \<open>\<open>resolve\<close> returns a result whenever the release is there with its project
  and committee, a finished vote initiation exists, and, for a round-1 podling pass, the
  archive URL and the revision number are known.\<close>

lemma resolve_returns:
  assumes "loaded_candidate data project_name version_name = Some release"
    and "r_project release = Some project"
    and "p_committee project = Some c"
    and "release_latest_vote_task (dev_environment env) data release = Some task"
    and "t_task_args task = InitiateArgs a"
    and "vote_result_v = passed \<and> c_is_podling c \<and> r_podling_thread_id release = None \<longrightarrow>
           task_archive_url_cached env (task_mid_get (dev_environment env) task) \<noteq> None
           \<and> r_latest_revision_number release \<noteq> None"
  shows "\<exists>result. resolve env data project_name version_name vote_result_v asf_fullname
           resolution_body = Inr result"
  using assms
  by (cases vote_result_v)
     (auto simp: resolve_def loaded_candidate_def release_committee_def resolve_release_def
        Let_def start_no_promote resolve_finish_def send_resolution_def arg_email_to_def
        arg_vote_duration_def
        split: option.splits sum.splits prod.splits)



text \<open>
  Claim C7, amended. On a round-1 podling pass \<open>resolve_release\<close> looks up the archive
  URL for the message id in the vote task's result and fails with a \<open>ValueError\<close> when
  there is none; when it returns, \<open>podling_thread_id\<close> is the last path segment of that
  URL, the phase is untouched, and one new queued \<open>VOTE_INITIATE\<close> task has been added
  (followed only by the resolution mails): it is addressed to \<open>util.USER_TESTS_ADDRESS\<close>,
  with the subject \<open>[VOTE] Release <display name> <version>\<close>, the body
  \<open>construct.start_vote_default\<close> gives and the duration of the first vote. The call is
  made with \<open>promote = False\<close>: \<open>promote_release\<close> has no part in the result.
\<close>

theorem resolve_release_round_one_pass:
  "(task_archive_url_cached env (task_mid_get (dev_environment env) latest_vote_task) = None
      \<longrightarrow> resolve_release env data project_name release (Some 1) passed latest_vote_task
            asf_fullname resolution_body
          = Inl (ValueError ''No archive URL found for podling vote''))
   \<and> (\<forall>data' release' vr s e.
        resolve_release env data project_name release (Some 1) passed latest_vote_task
          asf_fullname resolution_body = Inr (data', release', vr, s, e)
        \<longrightarrow> (\<exists>archive_url project vote_duration ts.
              task_archive_url_cached env (task_mid_get (dev_environment env) latest_vote_task)
                = Some archive_url
              \<and> r_project release = Some project
              \<and> arg_vote_duration latest_vote_task = Inr vote_duration
              \<and> release' = release\<lparr>r_podling_thread_id :=
                                     Some (last (split_char CHR ''/'' archive_url))\<rparr>
              \<and> db_releases data' = db_releases (update_release data release')
              \<and> db_revisions data' = db_revisions data
              \<and> db_tasks data' = db_tasks data
                   @ [round_two_task env release project vote_duration asf_fullname] @ ts
              \<and> list_all (\<lambda>t. t_task_type t = MESSAGE_SEND) ts))
   \<and> resolve_release (env\<lparr>promote_release := f\<rparr>) data project_name release (Some 1) passed
        latest_vote_task asf_fullname resolution_body
      = resolve_release env data project_name release (Some 1) passed latest_vote_task
          asf_fullname resolution_body"
proof (intro conjI allI impI)
  assume "task_archive_url_cached env (task_mid_get (dev_environment env) latest_vote_task) = None"
  then show "resolve_release env data project_name release (Some 1) passed latest_vote_task
            asf_fullname resolution_body
          = Inl (ValueError ''No archive URL found for podling vote'')"
    by (simp add: resolve_release_def)
next
  fix data' release' vr s e
  assume "resolve_release env data project_name release (Some 1) passed latest_vote_task
          asf_fullname resolution_body = Inr (data', release', vr, s, e)"
  then show "\<exists>archive_url project vote_duration ts.
              task_archive_url_cached env (task_mid_get (dev_environment env) latest_vote_task)
                = Some archive_url
              \<and> r_project release = Some project
              \<and> arg_vote_duration latest_vote_task = Inr vote_duration
              \<and> release' = release\<lparr>r_podling_thread_id :=
                                     Some (last (split_char CHR ''/'' archive_url))\<rparr>
              \<and> db_releases data' = db_releases (update_release data release')
              \<and> db_revisions data' = db_revisions data
              \<and> db_tasks data' = db_tasks data
                   @ [round_two_task env release project vote_duration asf_fullname] @ ts
              \<and> list_all (\<lambda>t. t_task_type t = MESSAGE_SEND) ts"
    by (rule resolve_release_round_one)
next
  show "resolve_release (env\<lparr>promote_release := f\<rparr>) data project_name release (Some 1) passed
        latest_vote_task asf_fullname resolution_body
      = resolve_release env data project_name release (Some 1) passed latest_vote_task
          asf_fullname resolution_body"
    by (simp add: resolve_release_def start_no_promote resolve_finish_def send_resolution_def
        send_task_def Let_def
        split: option.splits sum.splits prod.splits)
qed

text \<open>
  Claim C7, as stated, fails on the addressee: the round-2 vote is sent to
  \<open>util.USER_TESTS_ADDRESS\<close>, not to the Incubator PMC list (the source has the
  assignment of \<open>general@incubator.apache.org\<close> commented out). With the test address
  \<open>user-tests@tooling.apache.org\<close> the one vote initiation queued goes there.
\<close>

theorem resolve_release_round_one_pass_counterexample:
  "map_option queued_vote_recipients
     (result_db (resolve_release ex_vote_env (ex_db True None) ''foo''
                   (ex_release True None None) (Some 1) passed ex_vote_task ''Em One''
                   ''Result''))
   = Some [''user-tests@tooling.apache.org'']"
  by code_simp

theorem resolve_release_round_one_pass_witness:
  "(\<exists>data' release' vr s e ts.
     resolve_release ex_vote_env (ex_db True None) ''foo'' (ex_release True None None) (Some 1)
       passed ex_vote_task ''Em One'' ''Result'' = Inr (data', release', vr, s, e)
     \<and> r_podling_thread_id release' = Some ''abc123''
     \<and> db_tasks data' = db_tasks (ex_db True None)
          @ [round_two_task ex_vote_env (ex_release True None None) (ex_project True None) 72
               ''Em One''] @ ts)
   \<and> resolve_release ex_vote_env (ex_db True None) ''foo'' (ex_release True None None) (Some 1)
       passed ex_vote_task_no_mid ''Em One'' ''Result''
     = Inl (ValueError ''No archive URL found for podling vote'')"
proof -
  have none: "task_archive_url_cached ex_vote_env
                (task_mid_get (dev_environment ex_vote_env) ex_vote_task_no_mid) = None"
    by code_simp
  have fails: "resolve_release ex_vote_env (ex_db True None) ''foo'' (ex_release True None None)
       (Some 1) passed ex_vote_task_no_mid ''Em One'' ''Result''
     = Inl (ValueError ''No archive URL found for podling vote'')"
    using resolve_release_round_one_pass[of ex_vote_env ex_vote_task_no_mid "ex_db True None"
      "''foo''" "ex_release True None None" "''Em One''" "''Result''"
      "promote_release ex_vote_env", THEN conjunct1] none
    by simp
  have "\<not> isl (resolve_release ex_vote_env (ex_db True None) ''foo''
                 (ex_release True None None) (Some 1) passed ex_vote_task ''Em One'' ''Result'')"
    by code_simp
  then obtain data' release' vr s e where
    ev: "resolve_release ex_vote_env (ex_db True None) ''foo'' (ex_release True None None)
           (Some 1) passed ex_vote_task ''Em One'' ''Result'' = Inr (data', release', vr, s, e)"
    by (cases "resolve_release ex_vote_env (ex_db True None) ''foo''
                 (ex_release True None None) (Some 1) passed ex_vote_task ''Em One'' ''Result''")
       auto
  have url: "task_archive_url_cached ex_vote_env
               (task_mid_get (dev_environment ex_vote_env) ex_vote_task)
             = Some ''https://lists.apache.org/thread/abc123''"
    by code_simp
  have seg: "last (split_char CHR ''/'' ''https://lists.apache.org/thread/abc123'') = ''abc123''"
    by code_simp
  have p: "r_project (ex_release True None None) = Some (ex_project True None)"
    by (simp add: ex_release_def)
  have d: "arg_vote_duration ex_vote_task = Inr 72"
    by (simp add: arg_vote_duration_def ex_vote_task_def)
  from resolve_release_round_one_pass[of ex_vote_env ex_vote_task "ex_db True None" "''foo''"
      "ex_release True None None" "''Em One''" "''Result''" "promote_release ex_vote_env",
      THEN conjunct2, THEN conjunct1, rule_format, OF ev]
  obtain ts where
    "r_podling_thread_id release' = Some ''abc123''
     \<and> db_tasks data' = db_tasks (ex_db True None)
          @ [round_two_task ex_vote_env (ex_release True None None) (ex_project True None) 72
               ''Em One''] @ ts"
    using url seg p d by auto
  with ev fails show ?thesis by blast
qed

section \<open>Properties of trusted automation\<close>

lemma contains_drop: "contains sub (drop n s) \<Longrightarrow> contains sub s"
proof (induction s arbitrary: n)
  case Nil
  then show ?case by simp
next
  case (Cons c cs)
  show ?case
  proof (cases n)
    case 0
    with Cons.prems show ?thesis by simp
  next
    case (Suc k)
    with Cons.prems have "contains sub (drop k cs)" by simp
    then have "contains sub cs" by (rule Cons.IH)
    then show ?thesis by simp
  qed
qed

lemma trusted_project_checks_iff:
  "(trusted_project_checks repository workflow_ref = Inr (repository_name, workflow_path)) =
     (prefix ''apache/'' repository
      \<and> prefix (repository @ ''/'') workflow_ref
      \<and> contains ''@'' (removeprefix (repository @ ''/'') workflow_ref)
      \<and> prefix ''.github/workflows/''
           (rsplit1_first CHR ''@'' (removeprefix (repository @ ''/'') workflow_ref))
      \<and> repository_name = removeprefix ''apache/'' repository
      \<and> workflow_path = rsplit1_first CHR ''@'' (removeprefix (repository @ ''/'') workflow_ref))"
  by (auto simp: trusted_project_checks_def Let_def)

lemma trusted_project_checks_error:
  "trusted_project_checks repository workflow_ref = Inl e \<Longrightarrow> \<exists>m. e = InteractionError m"
  by (auto simp: trusted_project_checks_def Let_def split: if_splits)

lemma trusted_project_checks_fail:
  assumes "\<not> (prefix ''apache/'' repository
      \<and> prefix (repository @ ''/'') workflow_ref
      \<and> contains ''@'' workflow_ref
      \<and> prefix ''.github/workflows/''
           (rsplit1_first CHR ''@'' (removeprefix (repository @ ''/'') workflow_ref)))"
  shows "\<exists>m. trusted_project_checks repository workflow_ref = Inl (InteractionError m)"
proof -
  have "contains ''@'' (removeprefix (repository @ ''/'') workflow_ref)
        \<Longrightarrow> contains ''@'' workflow_ref"
    by (auto simp: removeprefix_def dest: contains_drop split: if_splits)
  with assms show ?thesis
    by (auto simp: trusted_project_checks_def Let_def)
qed

lemma find_None_iff2: "(find P xs = None) = (\<forall>x \<in> set xs. \<not> P x)"
  by (induction xs) auto

text \<open>
  Claim C8. \<open>trusted_jwt\<close> fails with an interaction error when the publisher is not
  \<open>github\<close>. For a token that verifies and whose actor maps to a uid, it fails with an
  interaction error unless the repository claim begins with \<open>apache/\<close>, the
  \<open>workflow_ref\<close> claim begins with the repository followed by \<open>/\<close> and contains \<open>@\<close>,
  and the workflow path before the final \<open>@\<close> begins with \<open>.github/workflows/\<close>; and when
  the checks pass but no release policy of that repository name lists the workflow path
  in its allowlist for the requested phase, it fails with \<open>ReleasePolicyNotFoundError\<close>.
  The checks pass exactly when the four conditions hold, the \<open>@\<close> being looked for after
  the repository prefix.
\<close>

theorem trusted_jwt_checks:
  "(publisher \<noteq> ''github'' \<longrightarrow>
      is_interaction_error (trusted_jwt env data publisher jwt phase))
   \<and> (verified env jwt repository workflow_ref \<longrightarrow>
        (\<not> (prefix ''apache/'' repository
            \<and> prefix (repository @ ''/'') workflow_ref
            \<and> contains ''@'' workflow_ref
            \<and> prefix ''.github/workflows/''
                 (rsplit1_first CHR ''@'' (removeprefix (repository @ ''/'') workflow_ref)))
         \<longrightarrow> is_interaction_error (trusted_jwt env data publisher jwt phase))
        \<and> (publisher = ''github''
           \<and> trusted_project_checks repository workflow_ref
               = Inr (repository_name, workflow_path)
           \<and> (\<forall>policy \<in> set (pd_policies data).
                 rp_github_repository_name policy = repository_name
                 \<longrightarrow> workflow_path \<notin> set (phase_allowlist phase policy))
         \<longrightarrow> is_policy_not_found (trusted_jwt env data publisher jwt phase)))
   \<and> ((trusted_project_checks repository workflow_ref = Inr (repository_name, workflow_path)) =
        (prefix ''apache/'' repository
         \<and> prefix (repository @ ''/'') workflow_ref
         \<and> contains ''@'' (removeprefix (repository @ ''/'') workflow_ref)
         \<and> prefix ''.github/workflows/''
              (rsplit1_first CHR ''@'' (removeprefix (repository @ ''/'') workflow_ref))
         \<and> repository_name = removeprefix ''apache/'' repository
         \<and> workflow_path
             = rsplit1_first CHR ''@'' (removeprefix (repository @ ''/'') workflow_ref)))"
proof (intro conjI impI)
  assume "publisher \<noteq> ''github''"
  then show "is_interaction_error (trusted_jwt env data publisher jwt phase)"
    by (simp add: trusted_jwt_def is_interaction_error_def)
next
  assume v: "verified env jwt repository workflow_ref"
    and n: "\<not> (prefix ''apache/'' repository
            \<and> prefix (repository @ ''/'') workflow_ref
            \<and> contains ''@'' workflow_ref
            \<and> prefix ''.github/workflows/''
                 (rsplit1_first CHR ''@'' (removeprefix (repository @ ''/'') workflow_ref)))"
  from trusted_project_checks_fail[OF n] obtain m where
    "trusted_project_checks repository workflow_ref = Inl (InteractionError m)" ..
  with v show "is_interaction_error (trusted_jwt env data publisher jwt phase)"
    by (auto simp: trusted_jwt_def is_interaction_error_def verified_def trusted_project_def
        split: sum.splits option.splits)
next
  assume v: "verified env jwt repository workflow_ref"
    and h: "publisher = ''github''
           \<and> trusted_project_checks repository workflow_ref
               = Inr (repository_name, workflow_path)
           \<and> (\<forall>policy \<in> set (pd_policies data).
                 rp_github_repository_name policy = repository_name
                 \<longrightarrow> workflow_path \<notin> set (phase_allowlist phase policy))"
  then have q: "release_policy_query data repository_name phase workflow_path = None"
    by (auto simp: release_policy_query_def find_None_iff2)
  from v h q show "is_policy_not_found (trusted_jwt env data publisher jwt phase)"
    by (auto simp: trusted_jwt_def is_policy_not_found_def verified_def trusted_project_def
        Let_def split: sum.splits option.splits)
next
  show "(trusted_project_checks repository workflow_ref = Inr (repository_name, workflow_path)) =
        (prefix ''apache/'' repository
         \<and> prefix (repository @ ''/'') workflow_ref
         \<and> contains ''@'' (removeprefix (repository @ ''/'') workflow_ref)
         \<and> prefix ''.github/workflows/''
              (rsplit1_first CHR ''@'' (removeprefix (repository @ ''/'') workflow_ref))
         \<and> repository_name = removeprefix ''apache/'' repository
         \<and> workflow_path
             = rsplit1_first CHR ''@'' (removeprefix (repository @ ''/'') workflow_ref))"
    by (rule trusted_project_checks_iff)
qed

theorem trusted_jwt_checks_witness:
  "is_interaction_error (trusted_jwt ex_jwt_env ex_policy_db ''gitlab'' ''good'' VOTE)
   \<and> is_interaction_error (trusted_jwt ex_jwt_env ex_policy_db ''github'' ''other'' VOTE)
   \<and> is_policy_not_found (trusted_jwt ex_jwt_env ex_policy_db ''github'' ''good'' COMPOSE)"
proof -
  have p: "''gitlab'' \<noteq> ''github''" by simp
  have v1: "verified ex_jwt_env ''other'' ''elsewhere/foo''
              ''elsewhere/foo/.github/workflows/release.yml@refs/heads/main''"
    by code_simp
  have n1: "\<not> (prefix ''apache/'' ''elsewhere/foo''
            \<and> prefix (''elsewhere/foo'' @ ''/'')
                ''elsewhere/foo/.github/workflows/release.yml@refs/heads/main''
            \<and> contains ''@'' ''elsewhere/foo/.github/workflows/release.yml@refs/heads/main''
            \<and> prefix ''.github/workflows/''
                 (rsplit1_first CHR ''@'' (removeprefix (''elsewhere/foo'' @ ''/'')
                    ''elsewhere/foo/.github/workflows/release.yml@refs/heads/main'')))"
    by simp
  have v2: "verified ex_jwt_env ''good'' ''apache/foo''
              ''apache/foo/.github/workflows/release.yml@refs/heads/main''"
    by code_simp
  have c2: "trusted_project_checks ''apache/foo''
              ''apache/foo/.github/workflows/release.yml@refs/heads/main''
            = Inr (''foo'', ''.github/workflows/release.yml'')"
    by code_simp
  have a2: "\<forall>policy \<in> set (pd_policies ex_policy_db).
                 rp_github_repository_name policy = ''foo''
                 \<longrightarrow> ''.github/workflows/release.yml'' \<notin> set (phase_allowlist COMPOSE policy)"
    by (simp add: ex_policy_db_def ex_policy_def)
  have w1: "is_interaction_error (trusted_jwt ex_jwt_env ex_policy_db ''gitlab'' ''good'' VOTE)"
    using trusted_jwt_checks[of "''gitlab''" ex_jwt_env ex_policy_db "''good''" VOTE,
        THEN conjunct1] p by blast
  have w2: "is_interaction_error (trusted_jwt ex_jwt_env ex_policy_db ''github'' ''other'' VOTE)"
    using trusted_jwt_checks[of "''github''" ex_jwt_env ex_policy_db "''other''" VOTE
        "''elsewhere/foo''" "''elsewhere/foo/.github/workflows/release.yml@refs/heads/main''",
        THEN conjunct2, THEN conjunct1, rule_format, OF v1, THEN conjunct1, rule_format, OF n1]
    .
  have w3: "is_policy_not_found (trusted_jwt ex_jwt_env ex_policy_db ''github'' ''good'' COMPOSE)"
    using trusted_jwt_checks[of "''github''" ex_jwt_env ex_policy_db "''good''" COMPOSE
        "''apache/foo''" "''apache/foo/.github/workflows/release.yml@refs/heads/main''"
        "''foo''" "''.github/workflows/release.yml''",
        THEN conjunct2, THEN conjunct1, rule_format, OF v2, THEN conjunct2, rule_format]
      c2 a2 by blast
  show ?thesis
    by (intro conjI w1 w2 w3)
qed


section \<open>Properties of all_releases\<close>







end
